(* ===== verification/TS_Prelude.thy ===== *)
theory TS_Prelude
  imports Complex_Main
begin

text \<open>
  Shared vocabulary of the time-series development. A pandas value of dtype
  float is a \<open>fval\<close>: \<open>Some x\<close> for a number, \<open>None\<close> for NaN. A pandas
  \<open>Series\<close> is a list of (index label, value) pairs in positional order. Python
  exceptions are values of \<open>py_error\<close>. The generic lemmas on lists, sums and
  strictly increasing keys used by several components live here, together with
  the Cauchy-Schwarz inequality for lists that bounds the correlation.
\<close>

section \<open>Values, series, errors\<close>

type_synonym fval = "real option"

type_synonym 'a series = "(int \<times> 'a) list"

datatype py_error = ValueError string | IndexError | KeyError string | ZeroDivisionError | StopIteration
  | FileNotFoundError string | OverflowError string

named_theorems series_simps "unfolding rules of the series accessors"

definition series_index :: "'a series \<Rightarrow> int list" where
  "series_index s = map fst s"

definition series_values :: "'a series \<Rightarrow> 'a list" where
  "series_values s = map snd s"

text \<open>A new series with the index of \<open>s\<close> and the values \<open>vs\<close>, as pandas builds
  the result of every element-wise operation.\<close>

definition with_values :: "'a series \<Rightarrow> 'b list \<Rightarrow> 'b series" where
  "with_values s vs = zip (series_index s) vs"

text \<open>Lookup by index label: NaN where the label is absent.\<close>

definition series_lookup :: "fval series \<Rightarrow> int \<Rightarrow> fval" where
  "series_lookup s k = (case map_of s k of None \<Rightarrow> None | Some v \<Rightarrow> v)"

text \<open>The index invariant of every series and frame the program builds: labels
  strictly increasing (so unique and monotonic, the case in which pandas' outer
  join is a sorted merge).\<close>

definition index_ok :: "'a series \<Rightarrow> bool" where
  "index_ok s \<longleftrightarrow> sorted_wrt (<) (map fst s)"

declare series_index_def [series_simps] series_values_def [series_simps]
  with_values_def [series_simps]

section \<open>Generic lemmas\<close>

lemma length_with_values [simp]:
  "length (with_values s vs) = min (length s) (length vs)"
  by (simp add: with_values_def series_index_def)

lemma map_fst_with_values [simp]:
  "length vs = length s \<Longrightarrow> map fst (with_values s vs) = map fst s"
  by (simp add: with_values_def series_index_def)

lemma map_snd_with_values [simp]:
  "length vs = length s \<Longrightarrow> map snd (with_values s vs) = vs"
  by (simp add: with_values_def series_index_def)

lemma length_series_values [simp]: "length (series_values s) = length s"
  by (simp add: series_values_def)

lemma nth_series_values [simp]: "i < length s \<Longrightarrow> series_values s ! i = snd (s ! i)"
  by (simp add: series_values_def)

lemma nth_with_values [simp]:
  "i < length s \<Longrightarrow> i < length vs \<Longrightarrow> with_values s vs ! i = (fst (s ! i), vs ! i)"
  by (simp add: with_values_def series_index_def)

lemma index_ok_with_values [simp]:
  "length vs = length s \<Longrightarrow> index_ok (with_values s vs) = index_ok s"
  by (simp add: index_ok_def)

lemma sorted_wrt_map_filter:
  "sorted_wrt R (map f xs) \<Longrightarrow> sorted_wrt R (map f (filter P xs))"
  by (induction xs) auto

lemma index_ok_filter [intro]: "index_ok s \<Longrightarrow> index_ok (filter P s)"
  by (simp add: index_ok_def sorted_wrt_map_filter)

subsection \<open>Dot products and the Cauchy-Schwarz inequality\<close>

definition dot :: "real list \<Rightarrow> real list \<Rightarrow> real" where
  "dot u v = sum_list (map2 (*) u v)"

lemma dot_simps [simp]:
  "dot [] v = 0" "dot u [] = 0" "dot (a # u) (b # v) = a * b + dot u v"
  by (simp_all add: dot_def)

lemma dot_self_nonneg [simp]: "0 \<le> dot u u"
  by (induction u) auto

lemma dot_comm: "dot u v = dot v u"
  by (induction u v rule: list_induct2') (auto simp: mult.commute)

lemma dot_self_eq_0: "dot u u = 0 \<longleftrightarrow> (\<forall>a \<in> set u. a = 0)"
proof (induction u)
  case (Cons a u)
  have "0 \<le> a * a" "0 \<le> dot u u" by simp_all
  then have "a * a + dot u u = 0 \<longleftrightarrow> a * a = 0 \<and> dot u u = 0" by linarith
  with Cons.IH show ?case by simp
qed simp

lemma dot_zero_left: "\<forall>a \<in> set u. a = 0 \<Longrightarrow> dot u v = 0"
  by (induction u v rule: list_induct2') auto

lemma dot_combination:
  "length u = length v \<Longrightarrow>
   dot (map2 (\<lambda>a b. p * b - q * a) u v) (map2 (\<lambda>a b. p * b - q * a) u v)
     = p\<^sup>2 * dot v v - 2 * p * q * dot u v + q\<^sup>2 * dot u u"
  by (induction u v rule: list_induct2) (simp_all add: algebra_simps power2_eq_square)

theorem cauchy_schwarz_dot:
  assumes "length u = length v"
  shows "(dot u v)\<^sup>2 \<le> dot u u * dot v v"
proof (cases "dot u u = 0")
  case True
  then have "dot u v = 0" by (simp add: dot_self_eq_0 dot_zero_left)
  then show ?thesis by simp
next
  case False
  let ?A = "dot u u" and ?C = "dot u v"
  have "0 \<le> dot (map2 (\<lambda>a b. ?A * b - ?C * a) u v) (map2 (\<lambda>a b. ?A * b - ?C * a) u v)"
    by simp
  also have "\<dots> = ?A\<^sup>2 * dot v v - 2 * ?A * ?C * ?C + ?C\<^sup>2 * ?A"
    by (rule dot_combination [OF assms])
  also have "\<dots> = ?A * (?A * dot v v - ?C\<^sup>2)"
    by (simp add: algebra_simps power2_eq_square)
  finally have "0 \<le> ?A * (?A * dot v v - ?C\<^sup>2)" .
  moreover have "0 < ?A" using False by (simp add: order_less_le)
  ultimately show ?thesis
    by (simp add: zero_le_mult_iff)
qed

end
