(* ===== verification/TS_Series.thy ===== *)
theory TS_Series
  imports TS_Prelude
begin

text \<open>
  The state of \<open>StockAnalysis\<close> (statistic_operations.py, lines 21-30) and the
  pandas primitives its methods are built from: construction of a series with a
  default 0-based index, \<open>Series.shift\<close>, the element-wise comparison and
  subtraction of float series (a NaN operand makes a comparison false and an
  arithmetic result NaN), and \<open>Series.dropna\<close>.
\<close>

section \<open>The analyser's state\<close>

record stock_analysis =
  data :: "fval series"

text \<open>\<open>pd.Series(data)\<close>: the values in order, labelled \<open>0 .. n-1\<close>.\<close>

definition series_of_list :: "'a list \<Rightarrow> 'a series" where
  "series_of_list xs = zip (map int [0..<length xs]) xs"

text \<open>\<open>StockAnalysis.__init__\<close>: the only state is the series.\<close>

definition stock_analysis_init :: "fval list \<Rightarrow> stock_analysis" where
  "stock_analysis_init xs = \<lparr>data = series_of_list xs\<rparr>"

text \<open>The series of the repository's unit tests (tests_module.py, line 11).\<close>

definition test_data :: "fval list" where
  "test_data = [Some 2, Some 1, Some 3, Some 4, Some 7, Some 6, Some 5]"

section \<open>Element-wise primitives\<close>

text \<open>\<open>Series.shift(k)\<close> moves the values \<open>k\<close> positions towards the end (to the
  front for negative \<open>k\<close>), keeps the length and fills the vacated positions with
  NaN.\<close>

definition shift :: "int \<Rightarrow> 'a option list \<Rightarrow> 'a option list" where
  "shift k xs =
     (if 0 \<le> k then take (length xs) (replicate (nat k) None @ xs)
      else take (length xs) (drop (nat (- k)) xs @ replicate (nat (- k)) None))"

text \<open>\<open>a < b\<close> on floats: false as soon as one side is NaN.\<close>

fun flt :: "fval \<Rightarrow> fval \<Rightarrow> bool" where
  "flt (Some a) (Some b) = (a < b)"
| "flt _ _ = False"

text \<open>\<open>a - b\<close> on floats: NaN as soon as one side is NaN.\<close>

fun fsub :: "fval \<Rightarrow> fval \<Rightarrow> fval" where
  "fsub (Some a) (Some b) = Some (a - b)"
| "fsub _ _ = None"

text \<open>\<open>Series.dropna()\<close>: the entries that are not NaN, labels kept.\<close>

definition dropna :: "fval series \<Rightarrow> fval series" where
  "dropna s = filter (\<lambda>p. snd p \<noteq> None) s"

section \<open>Lemmas\<close>

lemma length_series_of_list [simp]: "length (series_of_list xs) = length xs"
  by (simp add: series_of_list_def)

lemma map_fst_series_of_list [simp]:
  "map fst (series_of_list xs) = map int [0..<length xs]"
  by (simp add: series_of_list_def)

lemma map_snd_series_of_list [simp]: "map snd (series_of_list xs) = xs"
  by (simp add: series_of_list_def)

lemma data_stock_analysis_init [simp]: "data (stock_analysis_init xs) = series_of_list xs"
  by (simp add: stock_analysis_init_def)

lemma series_values_series_of_list [simp]: "series_values (series_of_list xs) = xs"
  by (simp add: series_values_def)

lemma index_ok_series_of_list [simp]: "index_ok (series_of_list xs)"
  by (simp add: index_ok_def sorted_wrt_map strict_mono_def)

lemma length_shift [simp]: "length (shift k xs) = length xs"
  by (simp add: shift_def min_def)

lemma nth_shift_nonneg:
  "0 \<le> k \<Longrightarrow> i < length xs \<Longrightarrow>
   shift k xs ! i = (if i < nat k then None else xs ! (i - nat k))"
  by (auto simp: shift_def nth_append)

lemma nth_shift_neg:
  "k < 0 \<Longrightarrow> i < length xs \<Longrightarrow>
   shift k xs ! i = (if i + nat (- k) < length xs then xs ! (i + nat (- k)) else None)"
  by (auto simp: shift_def nth_append add.commute)

lemma nth_shift_1:
  "i < length xs \<Longrightarrow> shift 1 xs ! i = (if i = 0 then None else xs ! (i - 1))"
  by (simp add: nth_shift_nonneg)

lemma nth_shift_minus_1:
  "i < length xs \<Longrightarrow> shift (-1) xs ! i = (if Suc i < length xs then xs ! Suc i else None)"
  by (simp add: nth_shift_neg)

lemma flt_iff: "flt a b \<longleftrightarrow> (\<exists>x y. a = Some x \<and> b = Some y \<and> x < y)"
  by (cases a; cases b) auto

lemma flt_None [simp]: "\<not> flt None b" "\<not> flt a None"
  by (cases b; simp) (cases a; simp)

lemma flt_asym: "flt a b \<Longrightarrow> \<not> flt b a"
  by (auto simp: flt_iff)

lemma fsub_eq_Some: "fsub a b = Some z \<longleftrightarrow> (\<exists>x y. a = Some x \<and> b = Some y \<and> z = x - y)"
  by (cases a; cases b) auto

lemma index_ok_dropna [simp]: "index_ok s \<Longrightarrow> index_ok (dropna s)"
  by (auto simp: dropna_def)

lemma dropna_no_nan: "(k, v) \<in> set (dropna s) \<Longrightarrow> v \<noteq> None"
  by (auto simp: dropna_def)

lemma length_dropna_le: "length (dropna s) \<le> length s"
  by (simp add: dropna_def)

lemma dropna_all_defined:
  "None \<notin> set (map snd s) \<Longrightarrow> dropna s = s"
  by (induction s) (auto simp: dropna_def)

end
