(* ===== verification/TS_Rolling.thy ===== *)
theory TS_Rolling
  imports TS_Series
begin

text \<open>
  \<open>StockAnalysis.moving_average\<close> (statistic_operations.py, lines 32-38):
  \<open>self.data.rolling(window=window_size).mean()\<close>. pandas takes, at position \<open>i\<close>,
  the trailing window of positions \<open>max 0 (i-w+1) .. i\<close>, counts its non-NaN
  observations and yields their mean when there are at least \<open>min_periods\<close> of
  them (default: the window size) and at least one; otherwise NaN. A negative
  window raises \<open>ValueError\<close>; a window of 0 is accepted.
\<close>

section \<open>Definitions\<close>

text \<open>The trailing window ending at position \<open>i\<close>.\<close>

definition rolling_window :: "nat \<Rightarrow> 'a list \<Rightarrow> nat \<Rightarrow> 'a list" where
  "rolling_window w xs i = drop (Suc i - w) (take (Suc i) xs)"

text \<open>The non-NaN observations of a window, in order.\<close>

fun observed :: "fval list \<Rightarrow> real list" where
  "observed [] = []"
| "observed (None # xs) = observed xs"
| "observed (Some x # xs) = x # observed xs"

text \<open>pandas' \<open>roll_mean\<close> at one position, with \<open>min_periods = w\<close>.\<close>

definition window_mean :: "nat \<Rightarrow> fval list \<Rightarrow> fval" where
  "window_mean w win =
     (let obs = observed win; nobs = length obs
      in if w \<le> nobs \<and> 0 < nobs then Some (sum_list obs / real nobs) else None)"

definition rolling_mean :: "int \<Rightarrow> fval list \<Rightarrow> py_error + fval list" where
  "rolling_mean w xs =
     (if w < 0 then Inl (ValueError ''window must be an integer 0 or greater'')
      else Inr (map (\<lambda>i. window_mean (nat w) (rolling_window (nat w) xs i)) [0..<length xs]))"

definition moving_average :: "stock_analysis \<Rightarrow> int \<Rightarrow> py_error + fval series" where
  "moving_average sa window_size =
     (case rolling_mean window_size (series_values (data sa)) of
        Inl e \<Rightarrow> Inl e
      | Inr vs \<Rightarrow> Inr (with_values (data sa) vs))"

section \<open>Lemmas\<close>

lemma length_rolling_window: "i < length xs \<Longrightarrow> length (rolling_window w xs i) = min w (Suc i)"
  by (simp add: rolling_window_def)

lemma length_observed_le: "length (observed xs) \<le> length xs"
  by (induction xs rule: observed.induct) auto

lemma observed_all_defined:
  "None \<notin> set xs \<Longrightarrow> length (observed xs) = length xs \<and> observed xs = map the xs"
  by (induction xs rule: observed.induct) auto

lemma length_observed_eq_iff: "length (observed xs) = length xs \<longleftrightarrow> None \<notin> set xs"
proof (induction xs rule: observed.induct)
  case (2 xs)
  then show ?case using length_observed_le [of xs] by simp
qed auto

lemma window_mean_eq:
  "window_mean w win =
     (if 0 < w \<and> w \<le> length win \<and> None \<notin> set win
      then Some (sum_list (map the win) / real (length win)) else None)"
  if "length win \<le> w"
proof -
  have le: "length (observed win) \<le> length win" by (rule length_observed_le)
  show ?thesis
  proof (cases "0 < w \<and> w \<le> length win \<and> None \<notin> set win")
    case True
    then show ?thesis using observed_all_defined [of win] by (auto simp: window_mean_def)
  next
    case False
    have ne: "None \<in> set win \<Longrightarrow> length (observed win) < length win"
      using le length_observed_eq_iff [of win] by (simp add: order_less_le)
    from False have "\<not> (w \<le> length (observed win) \<and> 0 < length (observed win))"
      using le ne that by (cases "None \<in> set win") auto
    with False show ?thesis by (simp add: window_mean_def Let_def)
  qed
qed

lemma rolling_mean_Inr:
  "0 \<le> w \<Longrightarrow>
   rolling_mean w xs = Inr (map (\<lambda>i. window_mean (nat w) (rolling_window (nat w) xs i)) [0..<length xs])"
  by (simp add: rolling_mean_def)

lemma rolling_mean_nth:
  assumes "0 \<le> w" "i < length xs"
  shows "map (\<lambda>i. window_mean (nat w) (rolling_window (nat w) xs i)) [0..<length xs] ! i =
     (if 0 < w \<and> nat w \<le> Suc i \<and> None \<notin> set (rolling_window (nat w) xs i)
      then Some (sum_list (map the (rolling_window (nat w) xs i)) / real (nat w)) else None)"
  using assms by (auto simp: window_mean_eq length_rolling_window min_def)

lemma moving_average_Inr:
  "0 \<le> w \<Longrightarrow> moving_average sa w =
     Inr (with_values (data sa)
       (map (\<lambda>i. window_mean (nat w) (rolling_window (nat w) (series_values (data sa)) i))
          [0..<length (data sa)]))"
  by (simp add: moving_average_def rolling_mean_Inr series_values_def)

section \<open>Properties\<close>

text \<open>C6: for a window size \<open>w \<ge> 0\<close>, \<open>moving_average\<close> succeeds, keeps the index of
  the stored series, and at position \<open>i\<close> yields the mean of the \<open>w\<close> values at
  positions \<open>i-w+1 .. i\<close> when \<open>w > 0\<close>, the window is complete and holds no NaN;
  otherwise NaN.\<close>

theorem moving_average_spec:
  assumes "0 \<le> w"
  shows "\<exists>r. moving_average sa w = Inr r \<and> map fst r = map fst (data sa) \<and>
    (\<forall>i < length r. snd (r ! i) =
       (let win = rolling_window (nat w) (series_values (data sa)) i
        in if 0 < w \<and> nat w \<le> Suc i \<and> None \<notin> set win
           then Some (sum_list (map the win) / real (nat w)) else None))"
proof -
  let ?xs = "series_values (data sa)"
  let ?ys = "map (\<lambda>i. window_mean (nat w) (rolling_window (nat w) ?xs i)) [0..<length (data sa)]"
  have len: "length ?ys = length (data sa)" by simp
  have "\<forall>i < length (data sa). ?ys ! i =
     (if 0 < w \<and> nat w \<le> Suc i \<and> None \<notin> set (rolling_window (nat w) ?xs i)
      then Some (sum_list (map the (rolling_window (nat w) ?xs i)) / real (nat w)) else None)"
    using rolling_mean_nth [OF assms, of _ ?xs] by (simp add: series_values_def)
  with len show ?thesis
    using moving_average_Inr [OF assms, of sa] by (simp add: Let_def)
qed

theorem moving_average_spec_witness:
  "0 \<le> (2::int) \<and>
   (\<exists>r. moving_average (stock_analysis_init test_data) 2 = Inr r \<and> snd (r ! 1) = Some (3 / 2))"
proof -
  obtain r where r: "moving_average (stock_analysis_init test_data) 2 = Inr r"
    and idx: "map fst r = map fst (data (stock_analysis_init test_data))"
    and val: "\<forall>i < length r. snd (r ! i) =
       (let win = rolling_window (nat 2) (series_values (data (stock_analysis_init test_data))) i
        in if 0 < (2::int) \<and> nat 2 \<le> Suc i \<and> None \<notin> set win
           then Some (sum_list (map the win) / real (nat 2)) else None)"
    using moving_average_spec [of 2 "stock_analysis_init test_data"] by auto
  have "length r = 7" using arg_cong [OF idx, of length] by (simp add: test_data_def)
  then have "snd (r ! 1) = Some (3 / 2)"
    using val by (simp add: test_data_def rolling_window_def)
  with r show ?thesis by auto
qed

text \<open>C11: on a series without NaN and a window \<open>w \<ge> 1\<close>, the result is NaN at
  exactly the first \<open>w - 1\<close> positions (everywhere when \<open>w\<close> exceeds the length).\<close>

theorem moving_average_leading_nan:
  assumes "None \<notin> set (series_values (data sa))" "0 < w"
  shows "\<exists>r. moving_average sa w = Inr r \<and> length r = length (data sa) \<and>
    (\<forall>i < length r. snd (r ! i) = None \<longleftrightarrow> i < nat w - 1)"
proof -
  let ?xs = "series_values (data sa)"
  have "\<forall>i < length (data sa). None \<notin> set (rolling_window (nat w) ?xs i)"
    using assms(1) by (auto simp: rolling_window_def dest: in_set_dropD in_set_takeD)
  then have "\<forall>i < length (data sa). window_mean (nat w) (rolling_window (nat w) ?xs i) = None
       \<longleftrightarrow> i < nat w - 1"
    using assms(2) by (auto simp: window_mean_eq length_rolling_window series_values_def min_def)
  then show ?thesis
    using moving_average_Inr [of w sa] assms(2) by simp
qed

theorem moving_average_leading_nan_witness:
  "None \<notin> set (series_values (data (stock_analysis_init test_data))) \<and> 0 < (3::int) \<and>
   (\<exists>r. moving_average (stock_analysis_init test_data) 3 = Inr r \<and> length r = 7 \<and>
      (\<forall>i < length r. snd (r ! i) = None \<longleftrightarrow> i < 2))"
  using moving_average_leading_nan [of "stock_analysis_init test_data" 3]
  by (simp add: test_data_def numeral_eq_Suc)

text \<open>C14: \<open>moving_average\<close> fails exactly for a negative window, with pandas'
  \<open>ValueError\<close>; the stored series is not touched on either branch.\<close>

theorem moving_average_error:
  "moving_average sa w = Inl e \<longleftrightarrow>
     w < 0 \<and> e = ValueError ''window must be an integer 0 or greater''"
  by (auto simp: moving_average_def rolling_mean_def)

end
