(* ===== verification/TS_Diff.thy ===== *)
theory TS_Diff
  imports TS_Series
begin

text \<open>
  \<open>StockAnalysis.diff\<close> (statistic_operations.py, lines 40-42):
  \<open>self.data.diff()\<close>, pandas' first difference with \<open>periods = 1\<close>: the series
  minus the series shifted by one position, NaN-propagating, index kept.
\<close>

section \<open>Definitions\<close>

definition diff_values :: "fval list \<Rightarrow> fval list" where
  "diff_values xs = map2 fsub xs (shift 1 xs)"

definition diff :: "stock_analysis \<Rightarrow> fval series" where
  "diff sa = with_values (data sa) (diff_values (series_values (data sa)))"

text \<open>Rebuilding a series from its first value and its differences (the inverse
  of \<open>diff\<close>, used to state what \<open>diff\<close> preserves).\<close>

fun undiff :: "real \<Rightarrow> fval list \<Rightarrow> fval list" where
  "undiff a [] = [Some a]"
| "undiff a (d # ds) = Some a # undiff (a + (case d of Some x \<Rightarrow> x | None \<Rightarrow> 0)) ds"

section \<open>Lemmas\<close>

lemma length_diff_values [simp]: "length (diff_values xs) = length xs"
  by (simp add: diff_values_def)

lemma nth_diff_values:
  "i < length xs \<Longrightarrow> diff_values xs ! i = (if i = 0 then None else fsub (xs ! i) (xs ! (i - 1)))"
  by (simp add: diff_values_def nth_shift_1)

lemma diff_values_Cons:
  "diff_values (x # xs) = None # map2 fsub xs (x # xs)"
proof (rule nth_equalityI)
  show "length (diff_values (x # xs)) = length (None # map2 fsub xs (x # xs))"
    by simp
next
  fix i assume "i < length (diff_values (x # xs))"
  then show "diff_values (x # xs) ! i = (None # map2 fsub xs (x # xs)) ! i"
    by (cases i) (simp_all add: nth_diff_values)
qed

lemma undiff_map2:
  "None \<notin> set xs \<Longrightarrow> undiff u (map2 fsub xs (Some u # xs)) = Some u # xs"
proof (induction xs arbitrary: u)
  case (Cons a xs)
  then obtain v where "a = Some v" by (cases a) auto
  with Cons show ?case by simp
qed simp

section \<open>Properties\<close>

text \<open>C7: \<open>diff\<close> keeps the index of the stored series; its first value is always
  NaN and its value at every later position \<open>i\<close> is \<open>x[i] - x[i-1]\<close>, NaN when
  either operand is NaN.\<close>

theorem diff_spec:
  "map fst (diff sa) = map fst (data sa) \<and>
   (\<forall>i < length (data sa). snd (diff sa ! i) =
      (if i = 0 then None
       else fsub (snd (data sa ! i)) (snd (data sa ! (i - 1)))))"
  by (simp add: diff_def nth_diff_values series_values_def)

theorem diff_spec_witness:
  "snd (diff (stock_analysis_init test_data) ! 0) = None \<and>
   snd (diff (stock_analysis_init test_data) ! 4) = Some 3"
  using diff_spec [of "stock_analysis_init test_data"]
  by (simp add: test_data_def series_of_list_def)

text \<open>C16: \<open>diff\<close> loses nothing but the first value: on a non-empty series without
  NaN, the running sums of the differences, started at the first value, give back
  the series.\<close>

theorem diff_roundtrip:
  assumes "None \<notin> set (series_values (data sa))" "data sa \<noteq> []"
  shows "undiff (the (snd (hd (data sa)))) (tl (series_values (diff sa))) = series_values (data sa)"
proof -
  obtain x xs where xs: "series_values (data sa) = x # xs"
    using assms(2) by (cases "data sa") (auto simp: series_values_def)
  then have "snd (hd (data sa)) = x"
    by (cases "data sa") (auto simp: series_values_def)
  moreover have "series_values (diff sa) = diff_values (x # xs)"
  proof -
    have "length (data sa) = length (x # xs)"
      using arg_cong [OF xs, of length] by (simp add: series_values_def)
    with xs show ?thesis by (simp add: diff_def series_values_def)
  qed
  moreover obtain u where "x = Some u"
    using assms(1) xs by (cases x) auto
  ultimately show ?thesis
    using assms(1) xs by (simp add: diff_values_Cons undiff_map2)
qed

theorem diff_roundtrip_witness:
  "None \<notin> set (series_values (data (stock_analysis_init test_data))) \<and>
   data (stock_analysis_init test_data) \<noteq> [] \<and>
   undiff 2 (tl (series_values (diff (stock_analysis_init test_data)))) = test_data"
  using diff_roundtrip [of "stock_analysis_init test_data"]
  by (simp add: test_data_def series_of_list_def series_values_def)

end
