(* ===== verification/TS_Autocorr.thy ===== *)
theory TS_Autocorr
  imports TS_Series
begin

text \<open>
  \<open>StockAnalysis.autocorr\<close> (statistic_operations.py, lines 44-53). The loop runs
  the lag from 1 to \<open>len(self.data) - 1\<close> (the length before NaNs are dropped)
  and calls \<open>Series.autocorr(lag)\<close> on the series without NaN. pandas computes
  \<open>s.autocorr(l)\<close> as \<open>s.corr(s.shift(l))\<close>; \<open>corr\<close> keeps the pairs in which
  neither side is NaN (\<open>nanops.nancorr\<close>, \<open>min_periods = 1\<close>) and calls
  \<open>np.corrcoef(a, b)[0, 1]\<close>: the covariance over \<open>N - 1\<close> divided by both
  standard deviations, clipped to \<open>[-1, 1]\<close>. Fewer than two pairs or a zero
  variance make the quotient \<open>0/0\<close>, i.e. NaN. The \<open>lag\<close> argument is shadowed
  by the loop variable and has no effect.
\<close>

section \<open>Definitions\<close>

definition mean :: "real list \<Rightarrow> real" where
  "mean xs = sum_list xs / real (length xs)"

definition centered :: "real list \<Rightarrow> real list" where
  "centered xs = map (\<lambda>x. x - mean xs) xs"

text \<open>\<open>np.clip(c, -1, 1)\<close>.\<close>

definition clip :: "real \<Rightarrow> real" where
  "clip x = max (-1) (min 1 x)"

text \<open>\<open>np.corrcoef(a, b)[0, 1]\<close>, NaN where numpy divides \<open>0\<close> by \<open>0\<close>.\<close>

definition corrcoef :: "real list \<Rightarrow> real list \<Rightarrow> fval" where
  "corrcoef xs ys =
     (let fact = real (length xs) - 1;
          dx = centered xs; dy = centered ys;
          cxy = dot dx dy / fact; cxx = dot dx dx / fact; cyy = dot dy dy / fact
      in if length xs < 2 \<or> cxx = 0 \<or> cyy = 0 then None
         else Some (clip (cxy / sqrt cxx / sqrt cyy)))"

text \<open>\<open>nanops.nancorr(a, b)\<close> with \<open>min_periods = 1\<close>.\<close>

definition nancorr :: "fval list \<Rightarrow> fval list \<Rightarrow> fval" where
  "nancorr a b =
     (let valid = filter (\<lambda>p. fst p \<noteq> None \<and> snd p \<noteq> None) (zip a b)
      in if length valid < 1 then None
         else corrcoef (map (the \<circ> fst) valid) (map (the \<circ> snd) valid))"

text \<open>\<open>Series.autocorr(lag)\<close> = \<open>self.corr(self.shift(lag))\<close>; both operands
  carry the same index, so the alignment inside \<open>corr\<close> is the identity.\<close>

definition series_autocorr :: "fval series \<Rightarrow> int \<Rightarrow> fval" where
  "series_autocorr s l = nancorr (series_values s) (shift l (series_values s))"

definition autocorr :: "stock_analysis \<Rightarrow> int \<Rightarrow> fval series" where
  "autocorr sa lag =
     (let maxumum_lag = int (length (data sa)) - 1;
          data_without_nan = dropna (data sa)
      in zip [1..maxumum_lag] (map (\<lambda>l. series_autocorr data_without_nan l) [1..maxumum_lag]))"

text \<open>The textbook Pearson coefficient, the reference the numpy computation is
  compared with.\<close>

definition pearson :: "real list \<Rightarrow> real list \<Rightarrow> fval" where
  "pearson xs ys =
     (let dx = centered xs; dy = centered ys
      in if length xs < 2 \<or> dot dx dx = 0 \<or> dot dy dy = 0 then None
         else Some (dot dx dy / sqrt (dot dx dx * dot dy dy)))"

section \<open>Lemmas\<close>

lemma length_centered [simp]: "length (centered xs) = length xs"
  by (simp add: centered_def)

lemma pearson_abs_le_1:
  assumes "length xs = length ys" "pearson xs ys = Some r"
  shows "\<bar>r\<bar> \<le> 1"
proof -
  let ?a = "dot (centered xs) (centered ys)"
  let ?b = "dot (centered xs) (centered xs) * dot (centered ys) (centered ys)"
  have pos: "0 < ?b" and r: "r = ?a / sqrt ?b"
    using assms(2) by (auto simp: pearson_def Let_def order_less_le split: if_splits)
  have "?a\<^sup>2 \<le> ?b"
    using cauchy_schwarz_dot [of "centered xs" "centered ys"] assms(1) by simp
  then have "\<bar>?a\<bar> \<le> sqrt ?b"
    by (intro real_le_rsqrt) simp
  with pos show ?thesis
    by (simp add: r abs_div divide_le_eq_1)
qed

lemma corrcoef_eq_pearson:
  assumes "length xs = length ys"
  shows "corrcoef xs ys = pearson xs ys"
proof (cases "length xs < 2 \<or> dot (centered xs) (centered xs) = 0 \<or> dot (centered ys) (centered ys) = 0")
  case True
  then show ?thesis by (auto simp: corrcoef_def pearson_def Let_def)
next
  case False
  let ?f = "real (length xs) - 1"
  let ?a = "dot (centered xs) (centered ys)"
  let ?p = "dot (centered xs) (centered xs)" and ?q = "dot (centered ys) (centered ys)"
  have f: "0 < ?f" using False by simp
  have pq: "0 < ?p" "0 < ?q" using False by (simp_all add: order_less_le)
  define r where "r = ?a / sqrt (?p * ?q)"
  have eq: "?a / ?f / sqrt (?p / ?f) / sqrt (?q / ?f) = r"
    using f pq by (simp add: r_def real_sqrt_divide real_sqrt_mult field_simps real_sqrt_mult_self)
  have "\<bar>r\<bar> \<le> 1"
    using pearson_abs_le_1 [OF assms] False by (simp add: pearson_def Let_def r_def)
  then have clip: "clip r = r" by (simp add: clip_def abs_le_iff)
  have "corrcoef xs ys = Some (clip (?a / ?f / sqrt (?p / ?f) / sqrt (?q / ?f)))"
    using False f by (simp add: corrcoef_def Let_def)
  also have "\<dots> = pearson xs ys"
    using False unfolding eq clip by (simp add: pearson_def Let_def r_def)
  finally show ?thesis .
qed

lemma shift_nonneg_eq:
  "0 \<le> k \<Longrightarrow>
   shift k xs = replicate (min (nat k) (length xs)) None @ take (length xs - nat k) xs"
  by (simp add: shift_def take_append min_def)

lemma filter_zip_replicate_None:
  "filter (\<lambda>p. fst p \<noteq> None \<and> snd p \<noteq> None) (zip as (replicate k None)) = []"
  by (auto simp: filter_empty_conv dest: set_zip_rightD)

lemma nancorr_shift:
  assumes "0 \<le> l"
  shows "nancorr (map Some ys) (shift l (map Some ys)) =
         pearson (drop (nat l) ys) (take (length ys - nat l) ys)"
proof -
  let ?n = "length ys" and ?k = "min (nat l) (length ys)"
  have dk: "drop ?k ys = drop (nat l) ys" by (simp add: min_def)
  have "zip (map Some ys) (shift l (map Some ys))
      = zip (take ?k (map Some ys)) (replicate ?k None)
        @ map (\<lambda>p. (Some (fst p), Some (snd p))) (zip (drop (nat l) ys) (take (?n - nat l) ys))"
    using assms dk by (simp add: shift_nonneg_eq zip_append2 drop_map take_map zip_map_map
        case_prod_beta')
  then have valid: "filter (\<lambda>p. fst p \<noteq> None \<and> snd p \<noteq> None) (zip (map Some ys) (shift l (map Some ys)))
      = map (\<lambda>p. (Some (fst p), Some (snd p))) (zip (drop (nat l) ys) (take (?n - nat l) ys))"
    by (simp only: filter_append filter_zip_replicate_None append_Nil) (simp add: filter_map comp_def)
  have len: "length (drop (nat l) ys) = length (take (?n - nat l) ys)" by simp
  show ?thesis
  proof (cases "?n - nat l < 1")
    case True
    then show ?thesis unfolding nancorr_def Let_def valid by (simp add: pearson_def)
  next
    case False
    then show ?thesis
      using corrcoef_eq_pearson [OF len] unfolding nancorr_def Let_def valid by (simp add: comp_def)
  qed
qed
lemma series_values_dropna:
  "map (Some \<circ> the) (series_values (dropna s)) = series_values (dropna s)"
  by (induction s) (auto simp: dropna_def series_values_def)

lemma series_autocorr_dropna:
  assumes "0 \<le> l"
  shows "series_autocorr (dropna s) l =
    (let d = map the (series_values (dropna s)) in pearson (drop (nat l) d) (take (length d - nat l) d))"
  using nancorr_shift [OF assms, of "map the (series_values (dropna s))"]
  by (simp add: series_autocorr_def Let_def series_values_dropna)

lemma length_autocorr [simp]: "length (autocorr sa lag) = length (data sa) - 1"
  by (simp add: autocorr_def Let_def)

lemma nth_upto_lag:
  "0 < l \<Longrightarrow> l < n \<Longrightarrow> [1..int n - 1] ! (l - 1) = int l"
  by (simp add: nth_upto)

lemma autocorr_nth:
  assumes "0 < l" "l < length (data sa)"
  shows "autocorr sa lag ! (l - 1) =
    (int l, (let d = map the (series_values (dropna (data sa)))
             in pearson (drop l d) (take (length d - l) d)))"
  using assms series_autocorr_dropna [of "int l" "data sa"]
  by (simp add: autocorr_def Let_def nth_upto_lag)

lemma mem_autocorr:
  "(k, v) \<in> set (autocorr sa lag) \<longleftrightarrow>
     (\<exists>l. 0 < l \<and> l < length (data sa) \<and> k = int l \<and>
        v = (let d = map the (series_values (dropna (data sa)))
             in pearson (drop l d) (take (length d - l) d)))"
proof
  assume "(k, v) \<in> set (autocorr sa lag)"
  then obtain i where "i < length (data sa) - 1" "autocorr sa lag ! i = (k, v)"
    by (auto simp: in_set_conv_nth)
  then show "\<exists>l. 0 < l \<and> l < length (data sa) \<and> k = int l \<and>
        v = (let d = map the (series_values (dropna (data sa)))
             in pearson (drop l d) (take (length d - l) d))"
    using autocorr_nth [of "Suc i" sa lag] by (intro exI [of _ "Suc i"]) (simp add: Let_def)
next
  assume "\<exists>l. 0 < l \<and> l < length (data sa) \<and> k = int l \<and>
        v = (let d = map the (series_values (dropna (data sa)))
             in pearson (drop l d) (take (length d - l) d))"
  then obtain l where l: "0 < l" "l < length (data sa)" "k = int l"
    and v: "v = (let d = map the (series_values (dropna (data sa)))
             in pearson (drop l d) (take (length d - l) d))"
    by blast
  then have "autocorr sa lag ! (l - 1) = (k, v)" using autocorr_nth [of l sa lag] by simp
  moreover have "l - 1 < length (autocorr sa lag)" using l by simp
  ultimately show "(k, v) \<in> set (autocorr sa lag)" by (metis nth_mem)
qed

section \<open>Properties\<close>

text \<open>C5: for any stored series and any \<open>lag\<close> argument, \<open>autocorr\<close> is the series
  over the lags \<open>1 .. n-1\<close> (\<open>n\<close> the length before NaNs are dropped) whose value
  at lag \<open>l\<close> is the Pearson correlation of the overlapping slices \<open>d[l:]\<close> and
  \<open>d[:m-l]\<close> of the NaN-free data \<open>d\<close> (length \<open>m\<close>), NaN where fewer than two
  pairs remain or a slice has zero variance. The \<open>lag\<close> argument does not occur
  on the right: it is ignored.\<close>

theorem autocorr_spec:
  "autocorr sa lag =
     (let d = map the (series_values (dropna (data sa)))
      in map (\<lambda>l. (int l, pearson (drop l d) (take (length d - l) d))) [1..<length (data sa)])"
proof (rule nth_equalityI)
  show "length (autocorr sa lag) = length (let d = map the (series_values (dropna (data sa)))
      in map (\<lambda>l. (int l, pearson (drop l d) (take (length d - l) d))) [1..<length (data sa)])"
    by (simp add: Let_def)
next
  fix i assume "i < length (autocorr sa lag)"
  then show "autocorr sa lag ! i = (let d = map the (series_values (dropna (data sa)))
      in map (\<lambda>l. (int l, pearson (drop l d) (take (length d - l) d))) [1..<length (data sa)]) ! i"
    using autocorr_nth [of "Suc i" sa lag] by (simp add: Let_def)
qed

text \<open>C12: every lag \<open>k \<ge> m - 1\<close>, where \<open>m\<close> is the number of non-NaN values,
  has a NaN autocorrelation: in particular the final lag of a NaN-free series.\<close>

theorem autocorr_tail_nan:
  assumes "(k, v) \<in> set (autocorr sa lag)" "int (length (dropna (data sa))) - 1 \<le> k"
  shows "v = None"
  using assms by (auto simp: mem_autocorr Let_def pearson_def)

theorem autocorr_tail_nan_witness:
  "(3, snd (autocorr (stock_analysis_init [Some 1, None, Some 2, Some 4]) 1 ! 2))
      \<in> set (autocorr (stock_analysis_init [Some 1, None, Some 2, Some 4]) 1) \<and>
   int (length (dropna (data (stock_analysis_init [Some 1, None, Some 2, Some 4])))) - 1 \<le> 3 \<and>
   snd (autocorr (stock_analysis_init [Some 1, None, Some 2, Some 4]) 1 ! 2) = None"
proof -
  let ?sa = "stock_analysis_init [Some 1, None, Some 2, Some 4]"
  have "autocorr ?sa 1 ! 2 = (3, snd (autocorr ?sa 1 ! 2))"
    using autocorr_nth [of 3 ?sa 1] by simp
  moreover have "2 < length (autocorr ?sa 1)" by simp
  ultimately have m: "(3, snd (autocorr ?sa 1 ! 2)) \<in> set (autocorr ?sa 1)"
    by (metis nth_mem)
  have l: "int (length (dropna (data ?sa))) - 1 \<le> 3"
    by (simp add: dropna_def series_of_list_def)
  show ?thesis using m l autocorr_tail_nan [OF m l] by simp
qed

end
