(* ===== verification/TS_Extrema.thy ===== *)
theory TS_Extrema
  imports TS_Series
begin

text \<open>
  \<open>StockAnalysis.maximum\<close> and \<open>StockAnalysis.minimum\<close> (statistic_operations.py,
  lines 55-63): the series compared element-wise with itself shifted by \<open>1\<close> and
  by \<open>-1\<close>, the two boolean masks combined with \<open>&\<close>, and the series indexed by
  the mask (\<open>self.data[mask]\<close>), which keeps the selected entries with their
  labels. A comparison with the NaN that a shift puts at either end is false, so
  the boundary positions are never selected.
\<close>

section \<open>Definitions\<close>

text \<open>Boolean-mask indexing \<open>s[mask]\<close>.\<close>

definition bool_index :: "'a series \<Rightarrow> bool list \<Rightarrow> 'a series" where
  "bool_index s sel = map fst (filter snd (zip s sel))"

text \<open>The masks \<open>(shift(1) < s) & (shift(-1) < s)\<close> and
  \<open>(shift(1) > s) & (shift(-1) > s)\<close>.\<close>

definition max_mask :: "fval list \<Rightarrow> bool list" where
  "max_mask v = map2 (\<and>) (map2 flt (shift 1 v) v) (map2 flt (shift (-1) v) v)"

definition min_mask :: "fval list \<Rightarrow> bool list" where
  "min_mask v = map2 (\<and>) (map2 (\<lambda>a b. flt b a) (shift 1 v) v) (map2 (\<lambda>a b. flt b a) (shift (-1) v) v)"

definition maximum :: "stock_analysis \<Rightarrow> fval series" where
  "maximum sa = bool_index (data sa) (max_mask (series_values (data sa)))"

definition minimum :: "stock_analysis \<Rightarrow> fval series" where
  "minimum sa = bool_index (data sa) (min_mask (series_values (data sa)))"

text \<open>The predicates the two masks compute, position by position.\<close>

definition is_local_max :: "fval list \<Rightarrow> nat \<Rightarrow> bool" where
  "is_local_max xs i \<longleftrightarrow>
     0 < i \<and> Suc i < length xs \<and> flt (xs ! (i - 1)) (xs ! i) \<and> flt (xs ! Suc i) (xs ! i)"

definition is_local_min :: "fval list \<Rightarrow> nat \<Rightarrow> bool" where
  "is_local_min xs i \<longleftrightarrow>
     0 < i \<and> Suc i < length xs \<and> flt (xs ! i) (xs ! (i - 1)) \<and> flt (xs ! i) (xs ! Suc i)"

text \<open>A reference for \<open>maximum\<close> that scans the series with a window of three
  consecutive entries, keeping the middle one when it is strictly greater than
  both others: the loop a direct implementation would run.\<close>

fun local_maxima :: "fval series \<Rightarrow> fval series" where
  "local_maxima (a # b # c # rest) =
     (if flt (snd a) (snd b) \<and> flt (snd c) (snd b) then [b] else []) @ local_maxima (b # c # rest)"
| "local_maxima _ = []"

section \<open>Lemmas\<close>

lemma bool_index_eq_filter:
  "length sel = length s \<Longrightarrow>
   bool_index s sel = map (\<lambda>i. s ! i) (filter (\<lambda>i. sel ! i) [0..<length s])"
proof (induction s arbitrary: sel rule: rev_induct)
  case (snoc x s)
  then obtain sel' b where "sel = sel' @ [b]" "length sel' = length s"
    by (cases sel rule: rev_cases) auto
  with snoc.IH show ?case
    by (auto simp: bool_index_def nth_append intro!: map_cong filter_cong)
qed (simp add: bool_index_def)

lemma set_bool_index:
  "length sel = length s \<Longrightarrow>
   set (bool_index s sel) = {s ! i | i. i < length s \<and> sel ! i}"
  by (auto simp: bool_index_eq_filter)

lemma sorted_wrt_map_fst_filter_zip:
  "sorted_wrt R (map f xs) \<Longrightarrow> sorted_wrt R (map (\<lambda>p. f (fst p)) (filter P (zip xs ys)))"
proof (induction xs arbitrary: ys)
  case (Cons x xs)
  then show ?case by (cases ys) (auto dest: set_zip_leftD)
qed simp

lemma index_ok_bool_index [intro]: "index_ok s \<Longrightarrow> index_ok (bool_index s sel)"
  using sorted_wrt_map_fst_filter_zip [of "(<)" fst s snd sel]
  by (simp add: index_ok_def bool_index_def comp_def)

lemma length_max_mask [simp]: "length (max_mask v) = length v"
  by (simp add: max_mask_def)

lemma length_min_mask [simp]: "length (min_mask v) = length v"
  by (simp add: min_mask_def)

lemma max_mask_nth: "i < length v \<Longrightarrow> max_mask v ! i = is_local_max v i"
  by (auto simp: max_mask_def is_local_max_def nth_shift_1 nth_shift_minus_1)

lemma min_mask_nth: "i < length v \<Longrightarrow> min_mask v ! i = is_local_min v i"
  by (auto simp: min_mask_def is_local_min_def nth_shift_1 nth_shift_minus_1)

lemma maximum_eq:
  "maximum sa = map (\<lambda>i. data sa ! i)
     (filter (is_local_max (series_values (data sa))) [0..<length (data sa)])"
proof -
  let ?v = "series_values (data sa)"
  have "filter (\<lambda>i. max_mask ?v ! i) [0..<length (data sa)]
      = filter (is_local_max ?v) [0..<length (data sa)]"
    by (rule filter_cong) (simp_all add: max_mask_nth series_values_def)
  then show ?thesis by (simp add: maximum_def bool_index_eq_filter series_values_def)
qed

lemma minimum_eq:
  "minimum sa = map (\<lambda>i. data sa ! i)
     (filter (is_local_min (series_values (data sa))) [0..<length (data sa)])"
proof -
  let ?v = "series_values (data sa)"
  have "filter (\<lambda>i. min_mask ?v ! i) [0..<length (data sa)]
      = filter (is_local_min ?v) [0..<length (data sa)]"
    by (rule filter_cong) (simp_all add: min_mask_nth series_values_def)
  then show ?thesis by (simp add: minimum_def bool_index_eq_filter series_values_def)
qed


lemma mem_maximum:
  "p \<in> set (maximum sa) \<longleftrightarrow>
     (\<exists>i. data sa ! i = p \<and> is_local_max (series_values (data sa)) i)"
  by (auto simp: maximum_eq is_local_max_def)

lemma mem_minimum:
  "p \<in> set (minimum sa) \<longleftrightarrow>
     (\<exists>i. data sa ! i = p \<and> is_local_min (series_values (data sa)) i)"
  by (auto simp: minimum_eq is_local_min_def)

lemma is_local_max_0 [simp]: "\<not> is_local_max xs 0"
  by (simp add: is_local_max_def)

lemma is_local_max_Cons:
  "is_local_max (x # xs) (Suc i) \<longleftrightarrow>
     (if i = 0 then 1 < length xs \<and> flt x (xs ! 0) \<and> flt (xs ! 1) (xs ! 0) else is_local_max xs i)"
  by (cases i) (auto simp: is_local_max_def)

lemma filter_upt_Suc:
  "filter P [0..<Suc m] = (if P 0 then [0] else []) @ map Suc (filter (P \<circ> Suc) [0..<m])"
  by (simp add: upt_conv_Cons map_Suc_upt [symmetric] filter_map del: upt_Suc)

lemma maxima_positions:
  "map (\<lambda>i. xs ! i) (filter (is_local_max (map snd xs)) [0..<length xs]) = local_maxima xs"
proof (induction xs rule: local_maxima.induct)
  case (1 a b c rest)
  let ?ys = "b # c # rest"
  have "filter (is_local_max (map snd (a # ?ys)) \<circ> Suc) [0..<length ?ys] =
        (if flt (snd a) (snd b) \<and> flt (snd c) (snd b) then [0] else []) @
        filter (is_local_max (map snd ?ys)) [0..<length ?ys]"
    by (simp only: filter_upt_Suc [of _ "Suc (length rest)"] length_Cons)
       (simp add: is_local_max_Cons comp_def cong: filter_cong)
  then show ?case
    using "1.IH" by (simp only: length_Cons filter_upt_Suc [of _ "Suc (Suc (length rest))"])
      (simp add: comp_def)
qed (auto simp: is_local_max_def)

section \<open>Properties\<close>

text \<open>C10: the vectorised \<open>maximum\<close> (two shifted copies, two comparison masks,
  their conjunction, boolean indexing) computes exactly what the sliding-window
  reference \<open>local_maxima\<close> computes, entry for entry and in order.\<close>

theorem maximum_local_maxima: "maximum sa = local_maxima (data sa)"
  using maxima_positions [of "data sa"] by (simp add: maximum_eq series_values_def)

text \<open>C8: an entry \<open>(k, v)\<close> is in \<open>maximum\<close> exactly when it is the entry at an
  interior position \<open>i\<close> (neither the first nor the last) whose value is strictly
  greater than the values at \<open>i - 1\<close> and \<open>i + 1\<close>, all three defined (not NaN).
  Boundary positions and plateaus never qualify.\<close>

theorem maximum_spec:
  "(k, v) \<in> set (maximum sa) \<longleftrightarrow>
     (\<exists>i. 0 < i \<and> Suc i < length (data sa) \<and> data sa ! i = (k, v) \<and>
          flt (snd (data sa ! (i - 1))) v \<and> flt (snd (data sa ! Suc i)) v)"
  unfolding mem_maximum is_local_max_def by auto

text \<open>C9: dually, \<open>(k, v)\<close> is in \<open>minimum\<close> exactly when it is the entry at an
  interior position whose value is strictly less than both neighbours' values.\<close>

theorem minimum_spec:
  "(k, v) \<in> set (minimum sa) \<longleftrightarrow>
     (\<exists>i. 0 < i \<and> Suc i < length (data sa) \<and> data sa ! i = (k, v) \<and>
          flt v (snd (data sa ! (i - 1))) \<and> flt v (snd (data sa ! Suc i)))"
  unfolding mem_minimum is_local_min_def by auto

text \<open>C13: when the index labels are unique (strictly increasing), no label is in
  both the maxima and the minima.\<close>

theorem maximum_minimum_disjoint:
  assumes "index_ok (data sa)"
  shows "set (map fst (maximum sa)) \<inter> set (map fst (minimum sa)) = {}"
proof (rule ccontr)
  assume "set (map fst (maximum sa)) \<inter> set (map fst (minimum sa)) \<noteq> {}"
  then obtain p q where p: "p \<in> set (maximum sa)" and q: "q \<in> set (minimum sa)"
    and pq: "fst p = fst q"
    by auto
  from p obtain i where i: "is_local_max (series_values (data sa)) i" and pi: "data sa ! i = p"
    by (auto simp: mem_maximum)
  from q obtain j where j: "is_local_min (series_values (data sa)) j" and qj: "data sa ! j = q"
    by (auto simp: mem_minimum)
  from pq pi qj have k: "fst (data sa ! i) = fst (data sa ! j)" by simp
  have "i < length (data sa)" "j < length (data sa)"
    using i j by (auto simp: is_local_max_def is_local_min_def series_values_def)
  have "i = j"
  proof (rule ccontr)
    assume "i \<noteq> j"
    then have "fst (data sa ! i) < fst (data sa ! j) \<or> fst (data sa ! j) < fst (data sa ! i)"
      using assms \<open>i < length (data sa)\<close> \<open>j < length (data sa)\<close>
      by (auto simp: index_ok_def sorted_wrt_iff_nth_less linorder_neq_iff)
    with k show False by simp
  qed
  with i j show False
    by (auto simp: is_local_max_def is_local_min_def dest: flt_asym)
qed

theorem maximum_minimum_disjoint_witness:
  "index_ok (data (stock_analysis_init test_data)) \<and>
   set (map fst (maximum (stock_analysis_init test_data))) \<inter>
   set (map fst (minimum (stock_analysis_init test_data))) = {}"
  using maximum_minimum_disjoint [of "stock_analysis_init test_data"] by simp

end
