(* ===== verification/TS_Frame.thy ===== *)
theory TS_Frame
  imports TS_Series
begin

text \<open>
  The result table of \<open>StockAnalysis\<close> (statistic_operations.py, lines 66-72 and
  line 90): \<open>save\<close>, a generator that yields one single-column
  \<open>pd.DataFrame({name: result})\<close>, consumed by \<open>next\<close>, and
  \<open>DataFrame.join(other, how='outer')\<close>. A frame is its column names and its
  rows, each an index label with one value per column. pandas refuses a join whose
  column sets overlap (no suffixes are given) with \<open>ValueError\<close>; otherwise, for
  indexes that are unique and increasing (the only ones the program builds), the
  outer join is the merge of the two row lists by label, a missing side filled with
  NaN. The abstraction \<open>frame_cell\<close> reads a frame as a map from (label, column)
  to a value, NaN where the label or the column is absent.
\<close>

section \<open>Definitions\<close>

record frame =
  columns :: "string list"
  rows :: "(int \<times> fval list) list"

text \<open>The values a generator yields, in order, and Python's \<open>next\<close> on a fresh one.\<close>

definition py_next :: "'a list \<Rightarrow> py_error + 'a" where
  "py_next ys = (case ys of [] \<Rightarrow> Inl StopIteration | y # _ \<Rightarrow> Inr y)"

text \<open>\<open>StockAnalysis.save\<close>: yields \<open>pd.DataFrame({name: result})\<close> once.\<close>

definition save :: "fval series \<Rightarrow> string \<Rightarrow> frame list" where
  "save result name = [\<lparr>columns = [name], rows = map (\<lambda>(i, v). (i, [v])) result\<rparr>]"

fun join_rows :: "nat \<Rightarrow> nat \<Rightarrow> (int \<times> fval list) list \<Rightarrow> (int \<times> fval list) list \<Rightarrow>
    (int \<times> fval list) list" where
  "join_rows kl kr [] ys = map (\<lambda>(j, r). (j, replicate kl None @ r)) ys"
| "join_rows kl kr xs [] = map (\<lambda>(i, l). (i, l @ replicate kr None)) xs"
| "join_rows kl kr ((i, l) # xs) ((j, r) # ys) =
     (if i < j then (i, l @ replicate kr None) # join_rows kl kr xs ((j, r) # ys)
      else if j < i then (j, replicate kl None @ r) # join_rows kl kr ((i, l) # xs) ys
      else (i, l @ r) # join_rows kl kr xs ys)"

definition join_outer :: "frame \<Rightarrow> frame \<Rightarrow> py_error + frame" where
  "join_outer df other =
     (if set (columns df) \<inter> set (columns other) \<noteq> {}
      then Inl (ValueError ''columns overlap but no suffix specified'')
      else Inr \<lparr>columns = columns df @ columns other,
                rows = join_rows (length (columns df)) (length (columns other)) (rows df) (rows other)\<rparr>)"

text \<open>The abstract view of a frame: the value in column \<open>c\<close> of the row labelled
  \<open>k\<close>, NaN where either is absent.\<close>

definition row_cell :: "string list \<Rightarrow> fval list \<Rightarrow> string \<Rightarrow> fval" where
  "row_cell cs r c = (case map_of (zip cs r) c of None \<Rightarrow> None | Some v \<Rightarrow> v)"

definition frame_cell :: "frame \<Rightarrow> int \<Rightarrow> string \<Rightarrow> fval" where
  "frame_cell df k c = (case map_of (rows df) k of None \<Rightarrow> None | Some r \<Rightarrow> row_cell (columns df) r c)"

definition frame_keys :: "frame \<Rightarrow> int list" where
  "frame_keys df = map fst (rows df)"

text \<open>Well-formed frames: increasing unique labels, distinct column names, and one
  value per column in every row.\<close>

definition frame_wf :: "frame \<Rightarrow> bool" where
  "frame_wf df \<longleftrightarrow> index_ok (rows df) \<and> distinct (columns df) \<and>
     list_all (\<lambda>r. length (snd r) = length (columns df)) (rows df)"

section \<open>Lemmas\<close>

lemma set_join_rows_keys:
  "set (map fst (join_rows kl kr xs ys)) = set (map fst xs) \<union> set (map fst ys)"
  by (induction kl kr xs ys rule: join_rows.induct) (auto simp: case_prod_unfold image_image)

lemma join_rows_keys_above:
  "\<forall>a \<in> set (map fst xs). c < a \<Longrightarrow> \<forall>a \<in> set (map fst ys). c < a \<Longrightarrow>
   \<forall>a \<in> set (map fst (join_rows kl kr xs ys)). c < a"
  by (simp only: set_join_rows_keys) blast

lemma sorted_join_rows:
  "sorted_wrt (<) (map fst xs) \<Longrightarrow> sorted_wrt (<) (map fst ys) \<Longrightarrow>
   sorted_wrt (<) (map fst (join_rows kl kr xs ys))"
proof (induction kl kr xs ys rule: join_rows.induct)
  case (3 kl kr i l xs j r ys)
  from "3.prems" have xs: "\<forall>a \<in> set (map fst xs). i < a" "sorted_wrt (<) (map fst xs)"
    and ys: "\<forall>a \<in> set (map fst ys). j < a" "sorted_wrt (<) (map fst ys)"
    by simp_all
  consider "i < j" | "j < i" | "i = j" by linarith
  then show ?case
  proof cases
    case 1
    with ys have "\<forall>a \<in> set (map fst ((j, r) # ys)). i < a" by auto
    with xs have "\<forall>a \<in> set (map fst (join_rows kl kr xs ((j, r) # ys))). i < a"
      by (intro join_rows_keys_above)
    with 1 "3.IH"(1) "3.prems" xs show ?thesis by simp
  next
    case 2
    with xs have "\<forall>a \<in> set (map fst ((i, l) # xs)). j < a" by auto
    with ys have "\<forall>a \<in> set (map fst (join_rows kl kr ((i, l) # xs) ys)). j < a"
      by (intro join_rows_keys_above)
    with 2 "3.IH"(2) "3.prems" ys show ?thesis by simp
  next
    case 3
    with xs ys have "\<forall>a \<in> set (map fst (join_rows kl kr xs ys)). i < a"
      by (intro join_rows_keys_above) auto
    with 3 "3.IH"(3) xs ys show ?thesis by simp
  qed
qed (auto simp: sorted_wrt_map case_prod_unfold)

lemma width_join_rows:
  "list_all (\<lambda>p. length (snd p) = kl) xs \<Longrightarrow> list_all (\<lambda>p. length (snd p) = kr) ys \<Longrightarrow>
   list_all (\<lambda>p. length (snd p) = kl + kr) (join_rows kl kr xs ys)"
  by (induction kl kr xs ys rule: join_rows.induct) (auto simp: list_all_iff)

lemma map_of_sorted_below:
  "sorted_wrt (<) (map fst ((j, r) # ys)) \<Longrightarrow> k < (j::int) \<Longrightarrow> map_of ((j, r) # ys) k = None"
  by (auto simp: map_of_eq_None_iff)

lemma map_of_join_rows:
  "sorted_wrt (<) (map fst xs) \<Longrightarrow> sorted_wrt (<) (map fst ys) \<Longrightarrow>
   map_of (join_rows kl kr xs ys) k =
     (case (map_of xs k, map_of ys k) of
        (None, None) \<Rightarrow> None
      | (Some l, None) \<Rightarrow> Some (l @ replicate kr None)
      | (None, Some r) \<Rightarrow> Some (replicate kl None @ r)
      | (Some l, Some r) \<Rightarrow> Some (l @ r))"
proof (induction kl kr xs ys rule: join_rows.induct)
  case (1 kl kr ys)
  then show ?case by (induction ys) (auto simp: case_prod_unfold split: option.splits)
next
  case (2 kl kr x xs)
  then show ?case by (induction xs) (auto simp: case_prod_unfold split: option.splits)
next
  case (3 kl kr i l xs j r ys)
  consider "i < j" | "j < i" | "i = j" by linarith
  then show ?case
  proof cases
    case 1
    then show ?thesis using 3 map_of_sorted_below [of j r ys i]
      by (auto split: option.splits)
  next
    case 2
    then show ?thesis using 3 map_of_sorted_below [of i l xs j]
      by (auto split: option.splits)
  next
    case 3
    then show ?thesis using "3.IH"(3) "3.prems" by (auto split: option.splits)
  qed
qed


lemma row_cell_append:
  "length l = length cs1 \<Longrightarrow>
   row_cell (cs1 @ cs2) (l @ r) c = (if c \<in> set cs1 then row_cell cs1 l c else row_cell cs2 r c)"
proof -
  assume len: "length l = length cs1"
  then have "map_of (zip cs1 l) c = None \<longleftrightarrow> c \<notin> set cs1"
    by (simp add: map_of_zip_is_None)
  moreover have "zip (cs1 @ cs2) (l @ r) = zip cs1 l @ zip cs2 r"
    using len by (simp add: zip_append)
  ultimately show ?thesis
    by (auto simp: row_cell_def map_of_append map_add_def split: option.splits)
qed

lemma row_cell_replicate_None [simp]: "row_cell cs (replicate n None) c = None"
proof (cases "map_of (zip cs (replicate n (None :: fval))) c")
  case (Some a)
  then have "(c, a) \<in> set (zip cs (replicate n None))" by (rule map_of_SomeD)
  then have "a \<in> set (replicate n None)" by (rule set_zip_rightD)
  then have "a = None" by simp
  with Some show ?thesis by (simp add: row_cell_def)
qed (simp add: row_cell_def)

lemma map_of_width:
  "list_all (\<lambda>p. length (snd p) = n) xs \<Longrightarrow> map_of xs k = Some r \<Longrightarrow> length r = n"
  by (auto simp: list_all_iff dest!: map_of_SomeD)

lemma join_outer_Inr:
  "join_outer df other = Inr j \<longleftrightarrow>
   set (columns df) \<inter> set (columns other) = {} \<and>
   j = \<lparr>columns = columns df @ columns other,
        rows = join_rows (length (columns df)) (length (columns other)) (rows df) (rows other)\<rparr>"
  by (auto simp: join_outer_def)

text \<open>Everything one join step guarantees, shared by the join properties below and
  by the fold of \<open>get_results\<close>.\<close>

lemma join_outer_step:
  assumes "frame_wf df" "frame_wf other" "join_outer df other = Inr j"
  shows "frame_wf j"
    and "set (frame_keys j) = set (frame_keys df) \<union> set (frame_keys other)"
    and "columns j = columns df @ columns other"
    and "frame_cell j k c = (if c \<in> set (columns df) then frame_cell df k c else frame_cell other k c)"
proof -
  have s1: "sorted_wrt (<) (map fst (rows df))" and s2: "sorted_wrt (<) (map fst (rows other))"
    and w1: "list_all (\<lambda>p. length (snd p) = length (columns df)) (rows df)"
    and w2: "list_all (\<lambda>p. length (snd p) = length (columns other)) (rows other)"
    using assms(1,2) by (auto simp: frame_wf_def index_ok_def)
  have rj: "rows j = join_rows (length (columns df)) (length (columns other)) (rows df) (rows other)"
    and cj: "columns j = columns df @ columns other"
    and disj: "set (columns df) \<inter> set (columns other) = {}"
    using assms(3) by (simp_all add: join_outer_Inr)
  show "frame_wf j"
    using assms(1,2) disj sorted_join_rows [OF s1 s2] width_join_rows [OF w1 w2]
    by (auto simp: frame_wf_def index_ok_def rj cj)
  show "set (frame_keys j) = set (frame_keys df) \<union> set (frame_keys other)"
    unfolding frame_keys_def rj by (simp only: set_join_rows_keys)
  show "columns j = columns df @ columns other" by (rule cj)
  show "frame_cell j k c = (if c \<in> set (columns df) then frame_cell df k c else frame_cell other k c)"
    using map_of_width [OF w1, of k] map_of_width [OF w2, of k]
    by (auto simp: rj cj frame_cell_def map_of_join_rows [OF s1 s2] row_cell_append
        split: option.splits)
qed

lemma py_next_save:
  "py_next (save result name) = Inr \<lparr>columns = [name], rows = map (\<lambda>(i, v). (i, [v])) result\<rparr>"
  by (simp add: py_next_def save_def)

lemma frame_wf_save:
  "index_ok result \<Longrightarrow> frame_wf \<lparr>columns = [name], rows = map (\<lambda>(i, v). (i, [v])) result\<rparr>"
  by (simp add: frame_wf_def index_ok_def list_all_iff case_prod_unfold comp_def)

lemma frame_keys_save [simp]:
  "frame_keys \<lparr>columns = [name], rows = map (\<lambda>(i, v). (i, [v])) result\<rparr> = map fst result"
  by (simp add: frame_keys_def case_prod_unfold comp_def)

lemma frame_cell_save:
  "frame_cell \<lparr>columns = [name], rows = map (\<lambda>(i, v). (i, [v])) result\<rparr> k c =
     (if c = name then series_lookup result k else None)"
proof -
  have "map_of (map (\<lambda>(i, v). (i, [v])) result) k = map_option (\<lambda>v. [v]) (map_of result k)"
    by (induction result) auto
  then show ?thesis
    by (auto simp: frame_cell_def row_cell_def series_lookup_def split: option.splits)
qed

section \<open>Properties\<close>

text \<open>C3: outer-join completeness: the labels of the joined frame are exactly the
  union of the labels of both frames, in increasing order, none dropped and none
  duplicated.\<close>

theorem join_outer_keys:
  assumes "frame_wf df" "frame_wf other" "join_outer df other = Inr j"
  shows "frame_keys j = sorted_list_of_set (set (frame_keys df) \<union> set (frame_keys other))"
proof -
  have "sorted_wrt (<) (frame_keys j)"
    using join_outer_step(1) [OF assms] by (simp add: frame_wf_def index_ok_def frame_keys_def)
  then show ?thesis
    using join_outer_step(2) [OF assms]
    by (metis sorted_list_of_set.idem_if_sorted_distinct strict_sorted_iff)
qed


text \<open>C4: refinement of the outer join to maps: in the joined frame, a cell of a
  column of the left frame holds the left frame's value at that label, and any
  other cell the right frame's value; a side that lacks the label contributes
  NaN.\<close>

theorem join_outer_cell:
  assumes "frame_wf df" "frame_wf other" "join_outer df other = Inr j"
  shows "frame_cell j k c =
    (if c \<in> set (columns df) then frame_cell df k c else frame_cell other k c)"
  by (rule join_outer_step(4) [OF assms])


text \<open>C15: \<open>next(self.save(result, name))\<close> never raises \<open>StopIteration\<close>: it
  returns a one-column frame named \<open>name\<close> whose labels are those of \<open>result\<close>
  and whose cells hold \<open>result\<close>'s values.\<close>

theorem save_next:
  "\<exists>df. py_next (save result name) = Inr df \<and> columns df = [name] \<and>
     frame_keys df = map fst result \<and> frame_cell df k name = series_lookup result k"
  by (simp add: py_next_save frame_cell_save)


theorem join_outer_keys_witness:
  "frame_wf \<lparr>columns = [''Max''], rows = [(4, [Some 7])]\<rparr> \<and>
   frame_wf \<lparr>columns = [''Min''], rows = [(1, [Some 1])]\<rparr> \<and>
   join_outer \<lparr>columns = [''Max''], rows = [(4, [Some 7])]\<rparr> \<lparr>columns = [''Min''], rows = [(1, [Some 1])]\<rparr>
     = Inr \<lparr>columns = [''Max'', ''Min''], rows = [(1, [None, Some 1]), (4, [Some 7, None])]\<rparr> \<and>
   frame_keys \<lparr>columns = [''Max'', ''Min''], rows = [(1, [None, Some 1]), (4, [Some 7, None])]\<rparr>
     = sorted_list_of_set {4, 1}"
proof -
  have h: "frame_wf \<lparr>columns = [''Max''], rows = [(4, [Some 7])]\<rparr>"
    "frame_wf \<lparr>columns = [''Min''], rows = [(1, [Some 1])]\<rparr>"
    "join_outer \<lparr>columns = [''Max''], rows = [(4, [Some 7])]\<rparr> \<lparr>columns = [''Min''], rows = [(1, [Some 1])]\<rparr>
     = Inr \<lparr>columns = [''Max'', ''Min''], rows = [(1, [None, Some 1]), (4, [Some 7, None])]\<rparr>"
    by (simp_all add: frame_wf_def index_ok_def join_outer_def)
  show ?thesis using h join_outer_keys [OF h] by (simp add: frame_keys_def insert_commute)
qed

theorem join_outer_cell_witness:
  "frame_wf \<lparr>columns = [''Max''], rows = [(4, [Some 7])]\<rparr> \<and>
   frame_wf \<lparr>columns = [''Min''], rows = [(1, [Some 1])]\<rparr> \<and>
   join_outer \<lparr>columns = [''Max''], rows = [(4, [Some 7])]\<rparr> \<lparr>columns = [''Min''], rows = [(1, [Some 1])]\<rparr>
     = Inr \<lparr>columns = [''Max'', ''Min''], rows = [(1, [None, Some 1]), (4, [Some 7, None])]\<rparr> \<and>
   frame_cell \<lparr>columns = [''Max'', ''Min''], rows = [(1, [None, Some 1]), (4, [Some 7, None])]\<rparr> 4 ''Max''
     = frame_cell \<lparr>columns = [''Max''], rows = [(4, [Some 7])]\<rparr> 4 ''Max''"
proof -
  have h: "frame_wf \<lparr>columns = [''Max''], rows = [(4, [Some 7])]\<rparr>"
    "frame_wf \<lparr>columns = [''Min''], rows = [(1, [Some 1])]\<rparr>"
    "join_outer \<lparr>columns = [''Max''], rows = [(4, [Some 7])]\<rparr> \<lparr>columns = [''Min''], rows = [(1, [Some 1])]\<rparr>
     = Inr \<lparr>columns = [''Max'', ''Min''], rows = [(1, [None, Some 1]), (4, [Some 7, None])]\<rparr>"
    by (simp_all add: frame_wf_def index_ok_def join_outer_def)
  show ?thesis using h join_outer_cell [OF h, of 4 "''Max''"] by simp
qed

end
