(* ===== verification/TS_Results.thy ===== *)
theory TS_Results
  imports TS_Rolling TS_Diff TS_Autocorr TS_Extrema TS_Frame
begin

text \<open>
  \<open>StockAnalysis.get_results\<close> (statistic_operations.py, lines 74-91) and the
  \<open>function_logger\<close> decorator wrapped around it (lines 5-18). The body starts
  from the frame of the raw series under \<open>Stock Cost\<close> and joins, in the order
  of the list, the frames of the five statistics, each computed by calling the
  bound method without arguments (so \<open>window_size = 3\<close> and \<open>lag = 1\<close>). Every
  exception aborts the call: the fold returns the first \<open>Inl\<close>. The decorator
  prints a line before the call and, if the call returns, a line with the result;
  the printed lines are an output log threaded through the call.
\<close>

section \<open>Definitions\<close>

text \<open>The list of \<open>(name, bound method)\<close> pairs of the loop.\<close>

definition stat_methods :: "(string \<times> (stock_analysis \<Rightarrow> py_error + fval series)) list" where
  "stat_methods =
     [(''Moving average'', \<lambda>sa. moving_average sa 3),
      (''Differential'', \<lambda>sa. Inr (diff sa)),
      (''Autocorrelation'', \<lambda>sa. Inr (autocorr sa 1)),
      (''Max'', \<lambda>sa. Inr (maximum sa)),
      (''Min'', \<lambda>sa. Inr (minimum sa))]"

text \<open>The loop \<open>df = df.join(next(self.save(func(), name)), how='outer')\<close>.\<close>

fun join_columns :: "stock_analysis \<Rightarrow> (string \<times> (stock_analysis \<Rightarrow> py_error + fval series)) list \<Rightarrow>
    frame \<Rightarrow> py_error + frame" where
  "join_columns sa [] df = Inr df"
| "join_columns sa ((name, func) # fs) df =
     (case func sa of
        Inl e \<Rightarrow> Inl e
      | Inr result \<Rightarrow>
          (case py_next (save result name) of
             Inl e \<Rightarrow> Inl e
           | Inr col \<Rightarrow>
               (case join_outer df col of
                  Inl e \<Rightarrow> Inl e
                | Inr df' \<Rightarrow> join_columns sa fs df')))"

definition get_results_body :: "stock_analysis \<Rightarrow> py_error + frame" where
  "get_results_body sa =
     (case py_next (save (data sa) ''Stock Cost'') of
        Inl e \<Rightarrow> Inl e
      | Inr df \<Rightarrow> join_columns sa stat_methods df)"

text \<open>The two \<open>print\<close> calls of the decorator's wrapper.\<close>

datatype ('a, 'b) log_line = LogCall string 'a | LogResult 'b

definition function_logger ::
  "string \<Rightarrow> ('a \<Rightarrow> py_error + 'b) \<Rightarrow> 'a \<Rightarrow> ('a, 'b) log_line list \<Rightarrow>
   (py_error + 'b) \<times> ('a, 'b) log_line list" where
  "function_logger name func args out =
     (let out1 = out @ [LogCall name args]
      in case func args of
           Inl e \<Rightarrow> (Inl e, out1)
         | Inr result \<Rightarrow> (Inr result, out1 @ [LogResult result]))"

definition get_results ::
  "stock_analysis \<Rightarrow> (stock_analysis, frame) log_line list \<Rightarrow>
   (py_error + frame) \<times> (stock_analysis, frame) log_line list" where
  "get_results sa out = function_logger ''get_results'' get_results_body sa out"

section \<open>Lemmas\<close>

text \<open>The loop joins every column whose method returns a series with unique
  increasing labels inside the base label set \<open>K\<close>: the labels stay \<open>K\<close>,
  earlier cells are kept, and each new column holds its series.\<close>

lemma join_columns_correct:
  assumes "frame_wf df" "set (frame_keys df) = K"
    and "list_all (\<lambda>(name, f). \<exists>r. f sa = Inr r \<and> index_ok r \<and> set (map fst r) \<subseteq> K) fs"
    and "distinct (columns df @ map fst fs)"
  shows "\<exists>df'. join_columns sa fs df = Inr df' \<and> frame_wf df' \<and> set (frame_keys df') = K \<and>
     columns df' = columns df @ map fst fs \<and>
     (\<forall>k c. c \<in> set (columns df) \<longrightarrow> frame_cell df' k c = frame_cell df k c) \<and>
     list_all (\<lambda>(name, f). \<forall>r k. f sa = Inr r \<longrightarrow> frame_cell df' k name = series_lookup r k) fs"
  using assms
proof (induction fs arbitrary: df)
  case Nil
  then show ?case by simp
next
  case (Cons nf fs)
  obtain name f where nf: "nf = (name, f)" by (cases nf)
  from Cons.prems(3) nf obtain r where r: "f sa = Inr r" "index_ok r" "set (map fst r) \<subseteq> K"
    and rest: "list_all (\<lambda>(name, f). \<exists>r. f sa = Inr r \<and> index_ok r \<and> set (map fst r) \<subseteq> K) fs"
    by auto
  let ?col = "\<lparr>columns = [name], rows = map (\<lambda>(i, v). (i, [v])) r\<rparr>"
  have colwf: "frame_wf ?col" using r(2) by (rule frame_wf_save)
  have disj: "set (columns df) \<inter> set (columns ?col) = {}"
    using Cons.prems(4) nf by auto
  then obtain j where j: "join_outer df ?col = Inr j"
    by (simp add: join_outer_def)
  note step = join_outer_step [OF Cons.prems(1) colwf j]
  have jK: "set (frame_keys j) = K"
    using step(2) Cons.prems(2) r(3) by auto
  have jd: "distinct (columns j @ map fst fs)"
    using step(3) Cons.prems(4) nf by simp
  obtain df' where df': "join_columns sa fs j = Inr df'" "frame_wf df'" "set (frame_keys df') = K"
    "columns df' = columns j @ map fst fs"
    "\<forall>k c. c \<in> set (columns j) \<longrightarrow> frame_cell df' k c = frame_cell j k c"
    "list_all (\<lambda>(name, f). \<forall>r k. f sa = Inr r \<longrightarrow> frame_cell df' k name = series_lookup r k) fs"
    using Cons.IH [OF step(1) jK rest jd] by blast
  have run: "join_columns sa (nf # fs) df = Inr df'"
    using nf r(1) j df'(1) by (simp add: py_next_save)
  have old: "\<forall>k c. c \<in> set (columns df) \<longrightarrow> frame_cell df' k c = frame_cell df k c"
    using df'(5) step(3,4) by simp
  have new: "\<forall>r' k. f sa = Inr r' \<longrightarrow> frame_cell df' k name = series_lookup r' k"
    using df'(5) step(3,4) disj r(1) by (auto simp: frame_cell_save)
  show ?case
    using run df'(2,3,4,6) step(3) old new nf by simp
qed


lemma set_bool_index_subset: "set (bool_index s sel) \<subseteq> set s"
  by (auto simp: bool_index_def dest: set_zip_leftD)

lemma map_fst_autocorr: "map fst (autocorr sa lag) = [1..int (length (data sa)) - 1]"
  by (simp add: autocorr_def Let_def)

lemma stat_methods_ok:
  "list_all (\<lambda>(name, f). \<exists>r. f (stock_analysis_init xs) = Inr r \<and> index_ok r \<and>
       set (map fst r) \<subseteq> set (map int [0..<length xs])) stat_methods"
proof -
  let ?sa = "stock_analysis_init xs"
  let ?K = "set (map int [0..<length xs])"
  have base: "index_ok (data ?sa)" "set (map fst (data ?sa)) = ?K" by simp_all
  have ma: "\<exists>r. moving_average ?sa w = Inr r \<and> index_ok r \<and> set (map fst r) \<subseteq> ?K"
    if "0 \<le> w" for w
  proof -
    let ?vs = "map (\<lambda>i. window_mean (nat w) (rolling_window (nat w) (series_values (data ?sa)) i))
      [0..<length (data ?sa)]"
    have "map fst (with_values (data ?sa) ?vs) = map fst (data ?sa)"
      by (rule map_fst_with_values) simp
    moreover have "index_ok (with_values (data ?sa) ?vs)" by simp
    ultimately show ?thesis using base that by (simp add: moving_average_Inr del: set_map)
  qed
  have df: "index_ok (diff ?sa) \<and> set (map fst (diff ?sa)) \<subseteq> ?K"
    using base by (simp add: diff_def)
  have ac: "index_ok (autocorr ?sa 1) \<and> set (map fst (autocorr ?sa 1)) \<subseteq> ?K"
  proof -
    have "set [1..int (length xs) - 1] \<subseteq> ?K"
    proof
      fix x assume "x \<in> set [1..int (length xs) - 1]"
      then have "x = int (nat x)" "nat x < length xs" by auto
      then show "x \<in> ?K" by force
    qed
    then show ?thesis by (simp add: index_ok_def map_fst_autocorr)
  qed
  have "set (map fst (maximum ?sa)) \<subseteq> set (map fst (data ?sa))"
    unfolding maximum_def set_map by (rule image_mono [OF set_bool_index_subset])
  then have mx: "index_ok (maximum ?sa) \<and> set (map fst (maximum ?sa)) \<subseteq> ?K"
    using base by (auto simp: maximum_def simp del: set_map)
  have "set (map fst (minimum ?sa)) \<subseteq> set (map fst (data ?sa))"
    unfolding minimum_def set_map by (rule image_mono [OF set_bool_index_subset])
  then have mn: "index_ok (minimum ?sa) \<and> set (map fst (minimum ?sa)) \<subseteq> ?K"
    using base by (auto simp: minimum_def simp del: set_map)
  show ?thesis
    using ma df ac mx mn by (simp add: stat_methods_def)
qed

lemma get_results_body_correct:
  "\<exists>df. get_results_body (stock_analysis_init xs) = Inr df \<and> frame_wf df \<and>
     frame_keys df = map int [0..<length xs] \<and>
     columns df = ''Stock Cost'' # map fst stat_methods \<and>
     (\<forall>k. frame_cell df k ''Stock Cost'' = series_lookup (series_of_list xs) k) \<and>
     list_all (\<lambda>(name, f). \<forall>r k. f (stock_analysis_init xs) = Inr r \<longrightarrow>
        frame_cell df k name = series_lookup r k) stat_methods"
proof -
  let ?sa = "stock_analysis_init xs"
  let ?df0 = "\<lparr>columns = [''Stock Cost''], rows = map (\<lambda>(i, v). (i, [v])) (series_of_list xs)\<rparr>"
  have wf0: "frame_wf ?df0" by (rule frame_wf_save) simp
  have k0: "set (frame_keys ?df0) = set (map int [0..<length xs])" by simp
  have d0: "distinct (columns ?df0 @ map fst stat_methods)" by (simp add: stat_methods_def)
  obtain df where df: "join_columns ?sa stat_methods ?df0 = Inr df" "frame_wf df"
    "set (frame_keys df) = set (map int [0..<length xs])"
    "columns df = columns ?df0 @ map fst stat_methods"
    "\<forall>k c. c \<in> set (columns ?df0) \<longrightarrow> frame_cell df k c = frame_cell ?df0 k c"
    "list_all (\<lambda>(name, f). \<forall>r k. f ?sa = Inr r \<longrightarrow> frame_cell df k name = series_lookup r k) stat_methods"
    using join_columns_correct [OF wf0 k0 stat_methods_ok d0] by blast
  have "frame_keys df = map int [0..<length xs]"
  proof -
    have "sorted_wrt (<) (frame_keys df)" "sorted_wrt (<) (map int [0..<length xs])"
      using df(2) by (simp_all add: frame_wf_def index_ok_def frame_keys_def sorted_wrt_map strict_mono_def)
    with df(3) show ?thesis by (metis sorted_distinct_set_unique strict_sorted_iff)
  qed
  then show ?thesis
    using df by (simp add: get_results_body_def py_next_save frame_cell_save)
qed

lemma get_results_eq:
  "get_results sa out =
     (case get_results_body sa of
        Inl e \<Rightarrow> (Inl e, out @ [LogCall ''get_results'' sa])
      | Inr df \<Rightarrow> (Inr df, out @ [LogCall ''get_results'' sa, LogResult df]))"
  by (simp add: get_results_def function_logger_def split: sum.split)

end
