(* ===== verification/TS_Tests.thy ===== *)
theory TS_Tests
  imports TS_Rolling TS_Diff TS_Autocorr TS_Extrema
begin

text \<open>
  The unit tests of \<open>src/data_analysis/analitica/test_module/tests_module.py\<close>:
  \<open>setUp\<close> builds the analyser on \<open>[2, 1, 3, 4, 7, 6, 5]\<close> and each test method
  is the truth value of its assertions. \<open>Series.equals\<close> compares index and
  values with NaN equal to NaN, which is equality of the modelled series;
  \<open>pd.testing.assert_series_equal(..., check_exact=False, check_index=False)\<close>
  compares the values position by position with \<open>math.isclose\<close> at pandas'
  default tolerances \<open>rtol = 1e-5\<close>, \<open>atol = 1e-8\<close>, NaN matching only NaN.
\<close>

section \<open>Definitions\<close>

text \<open>\<open>setUp\<close>: \<open>self.analiz = StockAnalysis(self.data)\<close>.\<close>

definition set_up :: stock_analysis where
  "set_up = stock_analysis_init test_data"

text \<open>\<open>a.equals(b)\<close>.\<close>

definition series_equals :: "fval series \<Rightarrow> fval series \<Rightarrow> bool" where
  "series_equals a b \<longleftrightarrow> a = b"

text \<open>\<open>math.isclose(a, b, rel_tol=1e-5, abs_tol=1e-8)\<close>.\<close>

definition isclose :: "real \<Rightarrow> real \<Rightarrow> bool" where
  "isclose a b \<longleftrightarrow> \<bar>a - b\<bar> \<le> max (1 / 100000 * max \<bar>a\<bar> \<bar>b\<bar>) (1 / 100000000)"

fun fval_close :: "fval \<Rightarrow> fval \<Rightarrow> bool" where
  "fval_close None None = True"
| "fval_close (Some a) (Some b) = isclose a b"
| "fval_close _ _ = False"

text \<open>\<open>pd.testing.assert_series_equal\<close> with \<open>check_exact=False\<close> and
  \<open>check_index=False\<close>: same length, values close.\<close>

definition assert_series_close :: "fval series \<Rightarrow> fval series \<Rightarrow> bool" where
  "assert_series_close actual expected \<longleftrightarrow>
     list_all2 fval_close (series_values actual) (series_values expected)"

definition test_moving_average :: bool where
  "test_moving_average =
     (case moving_average set_up 2 of
        Inl _ \<Rightarrow> False
      | Inr actual_MA \<Rightarrow>
          series_equals actual_MA
            (series_of_list [None, Some 1.5, Some 2.0, Some 3.5, Some 5.5, Some 6.5, Some 5.5]))"

definition test_diff :: bool where
  "test_diff =
     series_equals (diff set_up)
       (series_of_list [None, Some (-1.0), Some 2.0, Some 1.0, Some 3.0, Some (-1.0), Some (-1.0)])"

definition test_autocorr :: bool where
  "test_autocorr =
     assert_series_close (autocorr set_up 1)
       (zip [1..6] [Some 0.6927178575499473, Some 0.3434014098717226, Some (-0.39999999999999997),
                    Some (-0.5), Some 0.9999999999999999, None])"

definition test_maximum :: bool where
  "test_maximum =
     (let result_max = maximum set_up
      in map fst result_max = [4] \<and> series_values result_max = [Some 7])"

definition test_minimum :: bool where
  "test_minimum =
     (let result_min = minimum set_up
      in map fst result_min = [1] \<and> series_values result_min = [Some 1])"

section \<open>Lemmas\<close>

lemma test_data_dropna:
  "map the (series_values (dropna (series_of_list test_data))) = [2, 1, 3, 4, 7, 6, 5]"
  "length (dropna (series_of_list test_data)) = 7" "length test_data = 7"
  by (simp_all add: test_data_def dropna_def series_of_list_def series_values_def)

lemma ratio_sqrt_close:
  fixes a b c e :: real
  assumes "0 < a" "0 < b" "0 < e" "0 \<le> c - e" "(c - e)\<^sup>2 < a\<^sup>2 / b" "a\<^sup>2 / b < (c + e)\<^sup>2"
  shows "\<bar>a / sqrt b - c\<bar> < e"
proof -
  have eq: "a / sqrt b = sqrt (a\<^sup>2 / b)"
    using assms(1) by (simp add: real_sqrt_divide)
  have "c - e < sqrt (a\<^sup>2 / b)"
    using assms(5) by (rule real_less_rsqrt)
  moreover have "sqrt (a\<^sup>2 / b) < sqrt ((c + e)\<^sup>2)"
    using assms(6) by (rule real_sqrt_less_mono)
  then have "sqrt (a\<^sup>2 / b) < c + e"
    using assms(3,4) by simp
  ultimately show ?thesis by (simp add: eq abs_less_iff)
qed

text \<open>The autocorrelation of the test series in closed form.\<close>

lemma autocorr_set_up:
  "autocorr set_up 1 =
     [(1, Some ((52/3) / sqrt ((70/3) * (161/6)))), (2, Some (5 / sqrt (10 * (106/5)))),
      (3, Some (-2/5)), (4, Some (-1/2)), (5, Some 1), (6, None)]"
proof -
  let ?a = "autocorr set_up 1"
  have v: "?a ! (l - 1) = (int l, pearson (drop l [2, 1, 3, 4, 7, 6, 5]) (take (7 - l) [2, 1, 3, 4, 7, 6, 5]))"
    if "0 < l" "l < 7" for l
    using that autocorr_nth [of l set_up 1]
    by (simp add: set_up_def test_data_dropna Let_def numeral_eq_Suc)
  have "length ?a = 6" by (simp add: set_up_def test_data_dropna)
  then have "?a = map (\<lambda>l. ?a ! (l - 1)) [1..<7]"
    by (intro nth_equalityI) simp_all
  also have "\<dots> = map (\<lambda>l. (int l, pearson (drop l [2, 1, 3, 4, 7, 6, 5]) (take (7 - l) [2, 1, 3, 4, 7, 6, 5])))
      [1..<7]"
    by (rule map_cong [OF refl], rule v) simp_all
  finally show ?thesis
    by (simp add: upt_rec pearson_def centered_def mean_def Let_def real_sqrt_divide)
qed

lemma isclose_within:
  assumes "\<bar>a - b\<bar> < e" "e \<le> 1 / 100000 * \<bar>b\<bar>"
  shows "isclose a b"
proof -
  have "1 / 100000 * \<bar>b\<bar> \<le> 1 / 100000 * max \<bar>a\<bar> \<bar>b\<bar>" by simp
  moreover have "1 / 100000 * max \<bar>a\<bar> \<bar>b\<bar> \<le> max (1 / 100000 * max \<bar>a\<bar> \<bar>b\<bar>) (1 / 100000000)"
    by simp
  ultimately show ?thesis using assms unfolding isclose_def by linarith
qed

section \<open>The tests pass\<close>

text \<open>\<open>test_moving_average\<close> passes: with a window of 2 the moving average of the
  test series is exactly \<open>[NaN, 1.5, 2.0, 3.5, 5.5, 6.5, 5.5]\<close> on the index
  \<open>0 .. 6\<close>.\<close>

theorem test_moving_average_passes: "test_moving_average"
  by (simp add: test_moving_average_def set_up_def moving_average_Inr series_equals_def
      test_data_def series_of_list_def with_values_def series_index_def series_values_def
      window_mean_def rolling_window_def upt_rec)

text \<open>\<open>test_diff\<close> passes: the first difference of the test series is exactly
  \<open>[NaN, -1, 2, 1, 3, -1, -1]\<close> on the index \<open>0 .. 6\<close>.\<close>

theorem test_diff_passes: "test_diff"
  by (simp add: test_diff_def set_up_def diff_def diff_values_def shift_def series_equals_def
      test_data_def series_of_list_def with_values_def series_index_def series_values_def upt_rec)

text \<open>\<open>test_autocorr\<close> passes: the six autocorrelations of the test series are
  within pandas' tolerance of the expected constants, and the last one is NaN as
  expected.\<close>

theorem test_autocorr_passes: "test_autocorr"
proof -
  have b1: "\<bar>(52/3) / sqrt ((70/3) * (161/6)) - 0.6927178575499473\<bar> < (0.000001::real)"
    by (rule ratio_sqrt_close) (simp_all add: power2_eq_square)
  have b2: "\<bar>5 / sqrt (10 * (106/5)) - 0.3434014098717226\<bar> < (0.000001::real)"
    by (rule ratio_sqrt_close) (simp_all add: power2_eq_square)
  have c1: "isclose ((52/3) / sqrt ((70/3) * (161/6))) 0.6927178575499473"
    using b1 by (rule isclose_within) simp
  have c2: "isclose (5 / sqrt (10 * (106/5))) 0.3434014098717226"
    using b2 by (rule isclose_within) simp
  show ?thesis
    using c1 c2 by (simp add: test_autocorr_def assert_series_close_def autocorr_set_up
      series_values_def isclose_def upto.simps)
qed

text \<open>\<open>test_maximum\<close> and \<open>test_minimum\<close> pass: the maxima of the test series
  are \<open>{4: 7}\<close> and the minima \<open>{1: 1}\<close>.\<close>

theorem test_extrema_pass: "test_maximum \<and> test_minimum"
  by (simp add: test_maximum_def test_minimum_def set_up_def maximum_eq minimum_eq test_data_def
      series_of_list_def series_values_def is_local_max_def is_local_min_def upt_rec)

end
