(* ===== verification/Lab1_Params.thy ===== *)
theory Lab1_Params
  imports TS_Prelude
begin

text \<open>
  \<open>src/first_lab_work/lab1.py\<close>, parameter reading: \<open>read_properties\<close>
  (lines 6-25), \<open>config_properties\<close> (lines 52-66) and \<open>params_properties\<close>
  (lines 68-84). The file system is an explicit map \<open>file_system\<close> from paths to
  contents: \<open>open(path, 'r')\<close> of a missing path raises \<open>FileNotFoundError\<close>, and
  \<open>readlines\<close> splits the content after each newline (the content is taken after
  Python's universal-newline translation). Python's \<open>float(s)\<close> is the parameter
  \<open>to_float\<close>, so that no property depends on a model of the float syntax.
  Exceptions are \<open>Inl\<close> values; \<open>sbind\<close> propagates them as Python does.
\<close>

section \<open>Definitions\<close>

type_synonym file_system = "string \<Rightarrow> string option"

abbreviation newline :: char where
  "newline \<equiv> CHR 0x0A"

definition sbind :: "py_error + 'a \<Rightarrow> ('a \<Rightarrow> py_error + 'b) \<Rightarrow> py_error + 'b" where
  "sbind r f = (case r of Inl e \<Rightarrow> Inl e | Inr x \<Rightarrow> f x)"

text \<open>\<open>file.readlines()\<close>: the lines of the content, each ending with its newline,
  the last one without it when the content does not end with a newline.\<close>

fun readlines :: "string \<Rightarrow> string list" where
  "readlines [] = []"
| "readlines (c # cs) =
     (if c = newline then [c] # readlines cs
      else (case readlines cs of [] \<Rightarrow> [[c]] | l # ls \<Rightarrow> (c # l) # ls))"

text \<open>\<open>s.split(sep)\<close>: the pieces between the separators, always at least one.\<close>

fun split_on :: "char \<Rightarrow> string \<Rightarrow> string list" where
  "split_on sep [] = [[]]"
| "split_on sep (ch # cs) =
     (if ch = sep then [] # split_on sep cs
      else (case split_on sep cs of p # ps \<Rightarrow> (ch # p) # ps | [] \<Rightarrow> [[ch]]))"

text \<open>\<open>s.replace(' ', '')\<close>.\<close>

definition remove_spaces :: "string \<Rightarrow> string" where
  "remove_spaces s = filter (\<lambda>ch. ch \<noteq> CHR '' '') s"

text \<open>\<open>xs[i]\<close> on a list, \<open>IndexError\<close> out of range.\<close>

definition py_index :: "'a list \<Rightarrow> nat \<Rightarrow> py_error + 'a" where
  "py_index xs i = (if i < length xs then Inr (xs ! i) else Inl IndexError)"

text \<open>The loop of \<open>read_properties\<close> (lines 19-24) over the file's lines.\<close>

fun read_properties_loop ::
  "(string \<Rightarrow> py_error + real) \<Rightarrow> string list \<Rightarrow> (string \<rightharpoonup> real) \<Rightarrow> py_error + (string \<rightharpoonup> real)" where
  "read_properties_loop to_float [] properties = Inr properties"
| "read_properties_loop to_float (line # lines) properties =
     (let entry = split_on CHR '':'' line;
          key = remove_spaces (entry ! 0)
      in sbind (py_index entry 1) (\<lambda>v.
         sbind (to_float (remove_spaces v)) (\<lambda>value.
         read_properties_loop to_float lines (properties(key \<mapsto> value)))))"

text \<open>\<open>read_properties(path)\<close>: open, read the lines, close, then the loop.\<close>

definition read_properties ::
  "(string \<Rightarrow> py_error + real) \<Rightarrow> file_system \<Rightarrow> string \<Rightarrow> py_error + (string \<rightharpoonup> real)" where
  "read_properties to_float fs path =
     (case fs path of
        None \<Rightarrow> Inl (FileNotFoundError path)
      | Some content \<Rightarrow> read_properties_loop to_float (readlines content) Map.empty)"

text \<open>The six parameters, in the order of the tuple \<open>(n0, h, nk, a, b, c)\<close>.\<close>

record params =
  p_n0 :: real
  p_h :: real
  p_nk :: real
  p_a :: real
  p_b :: real
  p_c :: real

definition params_of_list :: "real list \<Rightarrow> params" where
  "params_of_list v = \<lparr>p_n0 = v ! 0, p_h = v ! 1, p_nk = v ! 2, p_a = v ! 3, p_b = v ! 4, p_c = v ! 5\<rparr>"

text \<open>\<open>properties[key]\<close>, \<open>KeyError\<close> for a missing key.\<close>

definition dict_get :: "(string \<rightharpoonup> real) \<Rightarrow> string \<Rightarrow> py_error + real" where
  "dict_get m k = (case m k of None \<Rightarrow> Inl (KeyError k) | Some v \<Rightarrow> Inr v)"

text \<open>Lookups (or conversions) in the order of the source, the first failure
  raising.\<close>

fun collect :: "('k \<Rightarrow> py_error + real) \<Rightarrow> 'k list \<Rightarrow> py_error + real list" where
  "collect f [] = Inr []"
| "collect f (k # ks) = sbind (f k) (\<lambda>x. sbind (collect f ks) (\<lambda>xs. Inr (x # xs)))"

definition param_names :: "string list" where
  "param_names = [''n0'', ''h'', ''nk'', ''a'', ''b'', ''c'']"

definition config_properties :: "(string \<Rightarrow> py_error + real) \<Rightarrow> file_system \<Rightarrow> py_error + params" where
  "config_properties to_float fs =
     sbind (read_properties to_float fs ''config.yaml'') (\<lambda>properties.
     sbind (collect (dict_get properties) param_names) (\<lambda>v. Inr (params_of_list v)))"

definition params_properties :: "(string \<Rightarrow> py_error + real) \<Rightarrow> string list \<Rightarrow> py_error + params" where
  "params_properties to_float ps =
     sbind (collect (\<lambda>i. sbind (py_index ps i) to_float) [0..<6]) (\<lambda>v. Inr (params_of_list v))"

text \<open>The key and the value string of a line with a colon, as the loop of
  \<open>read_properties\<close> extracts them (helpers for the statements).\<close>

definition line_key :: "string \<Rightarrow> string" where
  "line_key l = remove_spaces (takeWhile (\<lambda>c. c \<noteq> CHR '':'') l)"

definition line_value :: "string \<Rightarrow> string" where
  "line_value l = remove_spaces (takeWhile (\<lambda>c. c \<noteq> CHR '':'') (tl (dropWhile (\<lambda>c. c \<noteq> CHR '':'') l)))"

text \<open>A concrete \<open>float\<close> for the examples: it converts \<open>"2"\<close>, surrounded by
  spaces and newlines or not, and rejects everything else.\<close>

definition to_float_example :: "string \<Rightarrow> py_error + real" where
  "to_float_example s =
     (if filter (\<lambda>c. c \<noteq> CHR '' '' \<and> c \<noteq> newline) s = ''2'' then Inr 2 else Inl (ValueError s))"

section \<open>Lemmas\<close>

lemma sbind_Inr [simp]: "sbind (Inr x) f = f x" and sbind_Inl [simp]: "sbind (Inl e) f = Inl e"
  by (simp_all add: sbind_def)

lemma sbind_py_index_Inr:
  "sbind (py_index ps i) f = Inr x \<longleftrightarrow> i < length ps \<and> f (ps ! i) = Inr x"
  by (simp add: sbind_def py_index_def)

lemma sbind_py_index_Inl:
  "sbind (py_index ps i) f = Inl e \<longleftrightarrow>
     (if i < length ps then f (ps ! i) = Inl e else e = IndexError)"
  by (auto simp: sbind_def py_index_def)

lemma collect_Inl:
  "collect f ks = Inl e \<longleftrightarrow>
     (\<exists>i < length ks. (\<forall>j < i. \<exists>x. f (ks ! j) = Inr x) \<and> f (ks ! i) = Inl e)"
  by (induction ks) (auto simp: sbind_def All_less_Suc2 Ex_less_Suc2 split: sum.splits)

lemma collect_Inr: "\<forall>k \<in> set ks. f k = Inr (g k) \<Longrightarrow> collect f ks = Inr (map g ks)"
  by (induction ks) auto

lemma collect_dict_get:
  "collect (dict_get m) ks =
     (case find (\<lambda>k. m k = None) ks of Some k \<Rightarrow> Inl (KeyError k) | None \<Rightarrow> Inr (map (the \<circ> m) ks))"
  by (induction ks) (auto simp: dict_get_def split: option.splits)

text \<open>\<open>readlines\<close> on a text made of lines that each end with a newline.\<close>

lemma readlines_line:
  "newline \<notin> set l \<Longrightarrow> readlines (l @ newline # rest) = (l @ [newline]) # readlines rest"
  by (induction l) auto

lemma readlines_lines:
  "list_all (\<lambda>l. newline \<notin> set l) ls \<Longrightarrow>
   readlines (concat (map (\<lambda>l. l @ [newline]) ls)) = map (\<lambda>l. l @ [newline]) ls"
  by (induction ls) (simp_all add: readlines_line)

lemma split_on_eq:
  "split_on sep s = takeWhile (\<lambda>c. c \<noteq> sep) s #
     (if sep \<in> set s then split_on sep (tl (dropWhile (\<lambda>c. c \<noteq> sep) s)) else [])"
  by (induction s) auto

lemma split_on_nth_0: "split_on sep s ! 0 = takeWhile (\<lambda>c. c \<noteq> sep) s"
  by (subst split_on_eq) simp

lemma py_index_split_on_1:
  "py_index (split_on CHR '':'' l) 1 =
     (if CHR '':'' \<in> set l then Inr (takeWhile (\<lambda>c. c \<noteq> CHR '':'') (tl (dropWhile (\<lambda>c. c \<noteq> CHR '':'') l)))
      else Inl IndexError)"
  by (subst split_on_eq, subst split_on_eq) (simp add: py_index_def)

lemma read_properties_loop_step:
  "read_properties_loop to_float (l # ls) props =
     (if CHR '':'' \<in> set l
      then sbind (to_float (line_value l)) (\<lambda>value.
             read_properties_loop to_float ls (props(line_key l \<mapsto> value)))
      else Inl IndexError)"
  by (simp only: read_properties_loop.simps Let_def py_index_split_on_1 split_on_nth_0)
     (simp add: line_value_def line_key_def)

lemma read_properties_loop_ok:
  assumes "\<forall>l \<in> set lines. CHR '':'' \<in> set l \<and> to_float (line_value l) = Inr (val l)"
  shows "read_properties_loop to_float lines props =
    Inr (props ++ map_of (rev (map (\<lambda>l. (line_key l, val l)) lines)))"
  using assms
proof (induction lines arbitrary: props)
  case (Cons l ls)
  then show ?case by (simp del: read_properties_loop.simps add: read_properties_loop_step)
qed simp

lemma read_properties_file:
  "fs path = Some content \<Longrightarrow>
   read_properties to_float fs path = read_properties_loop to_float (readlines content) Map.empty"
  by (simp add: read_properties_def)

lemma params_properties_Inr:
  assumes "6 \<le> length ps" "\<forall>i < 6. to_float (ps ! i) = Inr (v i)"
  shows "params_properties to_float ps =
    Inr \<lparr>p_n0 = v 0, p_h = v 1, p_nk = v 2, p_a = v 3, p_b = v 4, p_c = v 5\<rparr>"
proof -
  have "collect (\<lambda>i. sbind (py_index ps i) to_float) [0..<6] = Inr (map v [0..<6])"
    using assms by (intro collect_Inr) (auto simp: py_index_def)
  then show ?thesis
    by (simp add: params_properties_def params_of_list_def upt_rec eval_nat_numeral)
qed

lemma config_properties_no_file:
  "fs ''config.yaml'' = None \<Longrightarrow>
   config_properties to_float fs = Inl (FileNotFoundError ''config.yaml'')"
  by (simp add: config_properties_def read_properties_def)

text \<open>\<open>readlines\<close> loses nothing and splits only after newlines: the lines
  concatenate back to the content, none is empty, a newline occurs in a line
  only as its last character, and every line but the last ends with one.\<close>

lemma readlines_roundtrip:
  "concat (readlines s) = s \<and>
   list_all (\<lambda>l. l \<noteq> [] \<and> newline \<notin> set (butlast l)) (readlines s) \<and>
   list_all (\<lambda>l. last l = newline) (butlast (readlines s))"
proof (induction s)
  case (Cons c cs)
  then show ?case by (auto split: list.split)
qed simp

section \<open>Properties\<close>

text \<open>C17: when the file exists and every one of its lines has a colon and a value
  that \<open>float\<close> accepts, \<open>read_properties\<close> returns the dictionary that maps
  each key (the text before the first colon, spaces removed) to the value of its
  last line: a later line with the same key overrides an earlier one.\<close>

theorem read_properties_last_wins:
  assumes "fs path = Some content"
    and "\<forall>l \<in> set (readlines content). CHR '':'' \<in> set l \<and> to_float (line_value l) = Inr (val l)"
  shows "read_properties to_float fs path =
    Inr (map_of (rev (map (\<lambda>l. (line_key l, val l)) (readlines content))))"
  using read_properties_loop_ok [OF assms(2), of Map.empty] by (simp add: read_properties_file [of fs path, OF assms(1)])

theorem read_properties_last_wins_witness:
  "[''config.yaml'' \<mapsto> ''a: 2'' @ newline # ''a:2''] ''config.yaml'' = Some (''a: 2'' @ newline # ''a:2'') \<and>
   list_all (\<lambda>l. CHR '':'' \<in> set l \<and> to_float_example (line_value l) = Inr ((\<lambda>_. 2) l))
     (readlines (''a: 2'' @ newline # ''a:2'')) \<and>
   read_properties to_float_example [''config.yaml'' \<mapsto> ''a: 2'' @ newline # ''a:2''] ''config.yaml'' =
     Inr [''a'' \<mapsto> 2]"
  using read_properties_last_wins [of "[''config.yaml'' \<mapsto> ''a: 2'' @ newline # ''a:2'']" "''config.yaml''"
      "''a: 2'' @ newline # ''a:2''" to_float_example "\<lambda>_. 2"]
  by (simp add: to_float_example_def line_value_def line_key_def remove_spaces_def)

text \<open>C18: a line without a colon, a blank line included, makes \<open>entry[1]\<close> raise
  \<open>IndexError\<close> as soon as the loop reaches it; the lines after it are not
  read.\<close>

theorem read_properties_missing_colon:
  assumes "fs path = Some content" "readlines content = pre @ l # post"
    and "\<forall>l \<in> set pre. CHR '':'' \<in> set l \<and> (\<exists>x. to_float (line_value l) = Inr x)"
    and "CHR '':'' \<notin> set l"
  shows "read_properties to_float fs path = Inl IndexError"
proof -
  have "read_properties_loop to_float (pre @ l # post) props = Inl IndexError" for props
    using assms(3)
  proof (induction pre arbitrary: props)
    case Nil
    then show ?case using assms(4) by (simp del: read_properties_loop.simps add: read_properties_loop_step)
  next
    case (Cons l' pre)
    then show ?case by (auto simp del: read_properties_loop.simps simp add: read_properties_loop_step)
  qed
  then show ?thesis by (simp add: read_properties_file [of fs path, OF assms(1)] assms(2))
qed

theorem read_properties_missing_colon_witness:
  "[''config.yaml'' \<mapsto> ''n0: 2'' @ newline # newline # ''h: 2''] ''config.yaml'' =
     Some (''n0: 2'' @ newline # newline # ''h: 2'') \<and>
   readlines (''n0: 2'' @ newline # newline # ''h: 2'') = [''n0: 2'' @ [newline]] @ [newline] # [''h: 2''] \<and>
   list_all (\<lambda>l. CHR '':'' \<in> set l \<and> (\<exists>x. to_float_example (line_value l) = Inr x)) [''n0: 2'' @ [newline]] \<and>
   CHR '':'' \<notin> set [newline] \<and>
   read_properties to_float_example [''config.yaml'' \<mapsto> ''n0: 2'' @ newline # newline # ''h: 2''] ''config.yaml'' =
     Inl IndexError"
proof -
  have h: "readlines (''n0: 2'' @ newline # newline # ''h: 2'') = [''n0: 2'' @ [newline]] @ [newline] # [''h: 2'']"
    "\<forall>l \<in> set [''n0: 2'' @ [newline]]. CHR '':'' \<in> set l \<and> (\<exists>x. to_float_example (line_value l) = Inr x)"
    by (simp_all add: to_float_example_def line_value_def remove_spaces_def)
  show ?thesis
    using h read_properties_missing_colon [of "[''config.yaml'' \<mapsto> ''n0: 2'' @ newline # newline # ''h: 2'']"
      "''config.yaml''" "''n0: 2'' @ newline # newline # ''h: 2''" "[''n0: 2'' @ [newline]]" "[newline]"
      "[''h: 2'']" to_float_example]
    by simp
qed

text \<open>C19: when \<open>config.yaml\<close> exists and every one of its lines has a colon and a
  value that \<open>float\<close> accepts, \<open>config_properties\<close> raises \<open>KeyError\<close> for the
  first of \<open>n0, h, nk, a, b, c\<close> that no line defines, and otherwise returns the
  six values of the last lines that define them.\<close>

theorem config_properties_spec:
  assumes "fs ''config.yaml'' = Some content"
    and "\<forall>l \<in> set (readlines content). CHR '':'' \<in> set l \<and> to_float (line_value l) = Inr (val l)"
  shows "config_properties to_float fs =
    (let m = map_of (rev (map (\<lambda>l. (line_key l, val l)) (readlines content)))
     in case find (\<lambda>k. m k = None) param_names of
          Some k \<Rightarrow> Inl (KeyError k)
        | None \<Rightarrow> Inr \<lparr>p_n0 = the (m ''n0''), p_h = the (m ''h''), p_nk = the (m ''nk''),
                     p_a = the (m ''a''), p_b = the (m ''b''), p_c = the (m ''c'')\<rparr>)"
  unfolding config_properties_def read_properties_file [of fs "''config.yaml''", OF assms(1)]
    read_properties_loop_ok [OF assms(2)] sbind_Inr collect_dict_get
  by (simp add: Let_def param_names_def params_of_list_def split: option.split)

theorem config_properties_spec_witness:
  "[''config.yaml'' \<mapsto> ''n0: 2'' @ newline # ''h: 2''] ''config.yaml'' = Some (''n0: 2'' @ newline # ''h: 2'') \<and>
   list_all (\<lambda>l. CHR '':'' \<in> set l \<and> to_float_example (line_value l) = Inr ((\<lambda>_. 2) l))
     (readlines (''n0: 2'' @ newline # ''h: 2'')) \<and>
   config_properties to_float_example [''config.yaml'' \<mapsto> ''n0: 2'' @ newline # ''h: 2''] = Inl (KeyError ''nk'')"
  using config_properties_spec [of "[''config.yaml'' \<mapsto> ''n0: 2'' @ newline # ''h: 2'']"
      "''n0: 2'' @ newline # ''h: 2''" to_float_example "\<lambda>_. 2"]
  by (simp add: to_float_example_def line_value_def line_key_def remove_spaces_def param_names_def)

text \<open>C20: \<open>params_properties\<close> fails exactly when, for the first position
  \<open>i < 6\<close> whose conversion does not succeed, the argument is missing
  (\<open>IndexError\<close>) or \<open>float\<close> raises on it (its error is propagated).\<close>

theorem params_properties_error:
  "params_properties to_float ps = Inl e \<longleftrightarrow>
     (\<exists>i < 6. (\<forall>j < i. j < length ps \<and> (\<exists>x. to_float (ps ! j) = Inr x)) \<and>
        (if i < length ps then to_float (ps ! i) = Inl e else e = IndexError))"
proof -
  have "params_properties to_float ps = Inl e \<longleftrightarrow>
        collect (\<lambda>i. sbind (py_index ps i) to_float) [0..<6] = Inl e"
    by (auto simp: params_properties_def sbind_def split: sum.splits)
  also have "\<dots> \<longleftrightarrow> (\<exists>i < 6. (\<forall>j < i. j < length ps \<and> (\<exists>x. to_float (ps ! j) = Inr x)) \<and>
        (if i < length ps then to_float (ps ! i) = Inl e else e = IndexError))"
    by (simp add: collect_Inl sbind_py_index_Inr sbind_py_index_Inl cong: conj_cong)
  finally show ?thesis .
qed

theorem params_properties_error_witness:
  "params_properties to_float_example [''2'', ''x''] = Inl (ValueError ''x'') \<and>
   (\<exists>i < 6. (\<forall>j < i. j < length [''2'', ''x''] \<and> (\<exists>x. to_float_example ([''2'', ''x''] ! j) = Inr x)) \<and>
      (if i < length [''2'', ''x''] then to_float_example ([''2'', ''x''] ! i) = Inl (ValueError ''x'')
       else ValueError ''x'' = IndexError))"
proof -
  have r: "params_properties to_float_example [''2'', ''x''] = Inl (ValueError ''x'')"
    by (simp add: params_properties_def to_float_example_def py_index_def upt_rec)
  then show ?thesis
    using params_properties_error [of to_float_example "[''2'', ''x'']" "ValueError ''x''"] by blast
qed

end
