(* ===== verification/Lab1_Tabulate.thy ===== *)
theory Lab1_Tabulate
  imports Lab1_Params
begin

text \<open>
  \<open>src/first_lab_work/lab1.py\<close>, tabulation and entry point:
  \<open>function_init\<close> (lines 40-50), \<open>write_results\<close> (lines 27-38),
  \<open>calculate_and_write\<close> (lines 86-96), \<open>run_with_config\<close>,
  \<open>run_with_params\<close> and the \<open>__main__\<close> block (lines 98-120). The program
  tabulates \<open>y(x) = a * exp(-b x^2 + c x)\<close> on
  \<open>np.linspace(n0, nk, int((nk - n0) / h))\<close> and writes one value per line to
  \<open>results.txt\<close>. Writing updates the file system of \<open>Lab1_Params\<close>;
  \<open>str(elem)\<close> is the parameter \<open>to_str\<close>, as \<open>float\<close> is \<open>to_float\<close>.

  The point count \<open>int((nk - n0) / h)\<close> is computed in binary64 floats, and its
  rounding decides how many values are written (\<open>1.0 / 0.1\<close> is \<open>10.0\<close> in
  floats, whose truncation differs from that of the exact quotient of the
  doubles). The model therefore computes the subtraction and the division as
  the exact real result passed through the parameter \<open>fl\<close>, the rounding to a
  double, \<open>None\<close> when the result overflows to an infinity; \<open>int\<close> of an
  infinity raises \<open>OverflowError\<close>. Every property holds for any such \<open>fl\<close>.
\<close>

section \<open>Definitions\<close>

text \<open>\<open>function_init(a, b, c)\<close>.\<close>

definition function_init :: "real \<Rightarrow> real \<Rightarrow> real \<Rightarrow> real \<Rightarrow> real" where
  "function_init a b c = (\<lambda>x. a * exp (- b * x\<^sup>2 + c * x))"

text \<open>\<open>x - y\<close> on floats: the rounded difference, \<open>None\<close> for an infinity.\<close>

definition py_sub :: "(real \<Rightarrow> real option) \<Rightarrow> real \<Rightarrow> real \<Rightarrow> real option" where
  "py_sub fl x y = fl (x - y)"

text \<open>\<open>x / y\<close> on floats: \<open>ZeroDivisionError\<close> for \<open>y = 0\<close> (also when \<open>x\<close> is
  infinite), an infinity divided by a finite \<open>y\<close> stays infinite, otherwise the
  rounded quotient.\<close>

definition py_div :: "(real \<Rightarrow> real option) \<Rightarrow> real option \<Rightarrow> real \<Rightarrow> py_error + real option" where
  "py_div fl x y =
     (if y = 0 then Inl ZeroDivisionError
      else Inr (case x of None \<Rightarrow> None | Some d \<Rightarrow> fl (d / y)))"

text \<open>\<open>int(x)\<close>: truncation towards zero of a finite float, \<open>OverflowError\<close> for
  an infinity.\<close>

definition py_int :: "real option \<Rightarrow> py_error + int" where
  "py_int x =
     (case x of
        None \<Rightarrow> Inl (OverflowError ''cannot convert float infinity to integer'')
      | Some v \<Rightarrow> Inr (if 0 \<le> v then \<lfloor>v\<rfloor> else - \<lfloor>- v\<rfloor>))"

text \<open>\<open>np.linspace(start, stop, num)\<close> (endpoint included): \<open>start + i * step\<close>
  with \<open>step = (stop - start) / (num - 1)\<close>, the last point set to \<open>stop\<close>.\<close>

definition linspace :: "real \<Rightarrow> real \<Rightarrow> int \<Rightarrow> py_error + real list" where
  "linspace start stop num =
     (if num < 0 then Inl (ValueError ''Number of samples must be non-negative'')
      else let n = nat num
           in Inr (map (\<lambda>i. if 1 < n \<and> i = n - 1 then stop
                            else start + real i * ((stop - start) / real (n - 1))) [0..<n]))"

text \<open>\<open>write_results(path, arr)\<close>: \<open>open(path, 'w')\<close> creates or truncates the
  file, then each element is written as \<open>str(elem) + '\n'\<close>.\<close>

definition write_results :: "(real \<Rightarrow> string) \<Rightarrow> file_system \<Rightarrow> string \<Rightarrow> real list \<Rightarrow> file_system" where
  "write_results to_str fs path arr = fs(path \<mapsto> concat (map (\<lambda>elem. to_str elem @ [newline]) arr))"

text \<open>\<open>calculate_and_write(n0, h, nk, a, b, c)\<close>.\<close>

definition calculate_and_write ::
  "(real \<Rightarrow> real option) \<Rightarrow> (real \<Rightarrow> string) \<Rightarrow> params \<Rightarrow> file_system \<Rightarrow> py_error + file_system" where
  "calculate_and_write fl to_str p fs =
     sbind (py_div fl (py_sub fl (p_nk p) (p_n0 p)) (p_h p)) (\<lambda>q.
     sbind (py_int q) (\<lambda>n.
     sbind (linspace (p_n0 p) (p_nk p) n) (\<lambda>x.
     Inr (write_results to_str fs ''results.txt'' (map (function_init (p_a p) (p_b p) (p_c p)) x)))))"

definition run_with_config ::
  "(string \<Rightarrow> py_error + real) \<Rightarrow> (real \<Rightarrow> real option) \<Rightarrow> (real \<Rightarrow> string) \<Rightarrow> file_system \<Rightarrow>
   py_error + file_system" where
  "run_with_config to_float fl to_str fs =
     sbind (config_properties to_float fs) (\<lambda>properties. calculate_and_write fl to_str properties fs)"

definition run_with_params ::
  "(string \<Rightarrow> py_error + real) \<Rightarrow> (real \<Rightarrow> real option) \<Rightarrow> (real \<Rightarrow> string) \<Rightarrow> string list \<Rightarrow>
   file_system \<Rightarrow> py_error + file_system" where
  "run_with_params to_float fl to_str ps fs =
     sbind (params_properties to_float ps) (\<lambda>properties. calculate_and_write fl to_str properties fs)"

text \<open>The entry point: with any other number of arguments nothing happens.\<close>

definition lab1_main ::
  "(string \<Rightarrow> py_error + real) \<Rightarrow> (real \<Rightarrow> real option) \<Rightarrow> (real \<Rightarrow> string) \<Rightarrow> file_system \<Rightarrow>
   string list \<Rightarrow> py_error + file_system" where
  "lab1_main to_float fl to_str fs argv =
     (if length argv = 1 then run_with_config to_float fl to_str fs
      else if length argv = 7 then run_with_params to_float fl to_str (drop 1 argv) fs
      else Inr fs)"

section \<open>Lemmas\<close>



section \<open>Properties\<close>

text \<open>C21: run with six command-line arguments that \<open>float\<close> accepts, the program
  reads them in the order \<open>n0, h, nk, a, b, c\<close> and tabulates with those
  parameters, whatever the file system holds.\<close>

theorem lab1_main_params:
  assumes "length argv = 7" "\<forall>i < 6. to_float (argv ! Suc i) = Inr (v i)"
  shows "lab1_main to_float fl to_str fs argv =
    calculate_and_write fl to_str \<lparr>p_n0 = v 0, p_h = v 1, p_nk = v 2, p_a = v 3, p_b = v 4, p_c = v 5\<rparr> fs"
proof -
  have "params_properties to_float (drop 1 argv) =
      Inr \<lparr>p_n0 = v 0, p_h = v 1, p_nk = v 2, p_a = v 3, p_b = v 4, p_c = v 5\<rparr>"
    using assms by (intro params_properties_Inr) simp_all
  then show ?thesis using assms(1) by (simp add: lab1_main_def run_with_params_def)
qed

theorem lab1_main_params_witness:
  "length [''lab1.py'', ''2'', ''2'', ''2'', ''2'', ''2'', ''2''] = 7 \<and>
   list_all (\<lambda>i. to_float_example ([''lab1.py'', ''2'', ''2'', ''2'', ''2'', ''2'', ''2''] ! Suc i) = Inr ((\<lambda>_. 2) i))
     [0..<6] \<and>
   lab1_main to_float_example Some (\<lambda>_. ''2'') Map.empty [''lab1.py'', ''2'', ''2'', ''2'', ''2'', ''2'', ''2''] =
     calculate_and_write Some (\<lambda>_. ''2'') \<lparr>p_n0 = 2, p_h = 2, p_nk = 2, p_a = 2, p_b = 2, p_c = 2\<rparr> Map.empty"
proof -
  have h: "\<forall>i < 6. to_float_example ([''lab1.py'', ''2'', ''2'', ''2'', ''2'', ''2'', ''2''] ! Suc i) = Inr ((\<lambda>_. 2) i)"
    by (simp add: to_float_example_def eval_nat_numeral less_Suc_eq)
  then show ?thesis
    using lab1_main_params [of "[''lab1.py'', ''2'', ''2'', ''2'', ''2'', ''2'', ''2'']" to_float_example "\<lambda>_. 2"
      Some "\<lambda>_. ''2''" Map.empty]
    by (simp add: to_float_example_def upt_rec)
qed

text \<open>C22: run without arguments and without \<open>config.yaml\<close>, the program raises
  \<open>FileNotFoundError\<close> before computing anything, so \<open>results.txt\<close> is not
  written.\<close>

theorem lab1_main_missing_config:
  assumes "length argv = 1" "fs ''config.yaml'' = None"
  shows "lab1_main to_float fl to_str fs argv = Inl (FileNotFoundError ''config.yaml'')"
  using assms by (simp add: lab1_main_def run_with_config_def config_properties_no_file)

theorem lab1_main_missing_config_witness:
  "length [''lab1.py''] = 1 \<and> (Map.empty :: file_system) ''config.yaml'' = None \<and>
   lab1_main to_float_example Some (\<lambda>_. ''2'') Map.empty [''lab1.py''] = Inl (FileNotFoundError ''config.yaml'')"
  using lab1_main_missing_config [of "[''lab1.py'']" Map.empty to_float_example Some "\<lambda>_. ''2''"] by simp




text \<open>C25: the results file reads back: when no \<open>str(y)\<close> contains a newline and
  \<open>float(str(y) + '\n')\<close> gives back \<open>y\<close> (Python's float formatting is
  round-trip exact), the lines of the written file are the formatted values and
  converting them with \<open>float\<close> gives back the written list.\<close>

theorem write_results_roundtrip:
  assumes "\<forall>y \<in> set arr. newline \<notin> set (to_str y) \<and> to_float (to_str y @ [newline]) = Inr y"
  shows "\<exists>content. write_results to_str fs path arr path = Some content \<and>
    readlines content = map (\<lambda>y. to_str y @ [newline]) arr \<and>
    collect to_float (readlines content) = Inr arr"
proof -
  have "list_all (\<lambda>l. newline \<notin> set l) (map to_str arr)"
    using assms by (simp add: list_all_iff)
  then have lines: "readlines (concat (map (\<lambda>y. to_str y @ [newline]) arr)) = map (\<lambda>y. to_str y @ [newline]) arr"
    using readlines_lines [of "map to_str arr"] by (simp add: comp_def)
  have "collect to_float (map (\<lambda>y. to_str y @ [newline]) arr) = Inr arr"
    using assms by (induction arr) auto
  with lines show ?thesis by (simp add: write_results_def)
qed

theorem write_results_roundtrip_witness:
  "list_all (\<lambda>y. newline \<notin> set ((\<lambda>_. ''2'') y) \<and> to_float_example ((\<lambda>_. ''2'') y @ [newline]) = Inr y) [2] \<and>
   (\<exists>content. write_results (\<lambda>_. ''2'') Map.empty ''results.txt'' [2] ''results.txt'' = Some content \<and>
      readlines content = [''2'' @ [newline]] \<and> collect to_float_example (readlines content) = Inr [2])"
  using write_results_roundtrip [of "[2]" "\<lambda>_. ''2''" to_float_example Map.empty "''results.txt''"]
  by (simp add: to_float_example_def)

end
