(* ===== verification/Spec2Isabelle.thy ===== *)
theory Spec2Isabelle
  imports TS_Results TS_Tests Lab1_Tabulate
begin

text \<open>
  \<^bold>\<open>Verification of the time-series analyser of osipovm/6402Osipov.\<close>

  \<^emph>\<open>The program.\<close> \<open>src/data_analysis/analitica/operations/statistic_operations.py\<close>
  defines the class \<open>StockAnalysis\<close>, whose only state is a pandas series built
  from the input sequence, five statistic methods (\<open>moving_average\<close>, \<open>diff\<close>,
  \<open>autocorr\<close>, \<open>maximum\<close>, \<open>minimum\<close>), a one-shot generator \<open>save\<close> that
  wraps a series as a one-column DataFrame, and \<open>get_results\<close>, which joins the
  raw series and the five statistics into one table by successive outer joins on
  the index and is wrapped by the printing decorator \<open>function_logger\<close>. The
  methods only read the series; \<open>get_results\<close> calls each of them once.
  \<open>src/first_lab_work/lab1.py\<close> is a separate script: it reads six parameters
  \<open>n0, h, nk, a, b, c\<close> from \<open>config.yaml\<close> (no argument) or from six
  command-line arguments, and writes \<open>a * exp(-b x^2 + c x)\<close> on
  \<open>np.linspace(n0, nk, int((nk - n0) / h))\<close> to \<open>results.txt\<close>.
  \<open>tests_module.py\<close> holds the unit tests of the five statistics on the series
  \<open>[2, 1, 3, 4, 7, 6, 5]\<close>. \<open>setup.py\<close> is packaging metadata.

  \<^emph>\<open>Values.\<close> In the analyser a float is a \<open>fval = real option\<close> with \<open>None\<close>
  for NaN; the statistics are computed in exact real arithmetic (rounding is not
  modelled, so results agree with the program's up to floating-point error; the
  test lemmas therefore compare with a tolerance, as the repository's tests do).
  Infinite values are not modelled there; in \<open>lab1.py\<close>, where rounding and
  overflow decide the number of points and an exception, they are (see
  \<open>Lab1_Tabulate\<close>). A pandas series is a list of (label, value) pairs in positional order
  (\<open>'a series\<close>); Python exceptions are values \<open>Inl e\<close> of \<open>py_error + 'a\<close>.

  \<^emph>\<open>Theories and the code they model.\<close>
  \<^item> \<open>TS_Prelude\<close>: values, series, errors; accessors; the index invariant
    \<open>index_ok\<close> (labels strictly increasing); dot products and the Cauchy-Schwarz
    inequality.
  \<^item> \<open>TS_Series\<close>: the record \<open>stock_analysis\<close> and \<open>stock_analysis_init\<close>
    (\<open>__init__\<close>, \<open>pd.Series(data)\<close>), pandas' \<open>shift\<close>, NaN-aware \<open><\<close> and
    \<open>-\<close> (\<open>flt\<close>, \<open>fsub\<close>), \<open>dropna\<close>, and the test series \<open>test_data\<close>.
  \<^item> \<open>TS_Rolling\<close>: \<open>moving_average\<close> via \<open>rolling_mean\<close> (pandas
    \<open>rolling(w).mean()\<close>, \<open>min_periods = w\<close>, \<open>ValueError\<close> for \<open>w < 0\<close>).
  \<^item> \<open>TS_Diff\<close>: \<open>diff\<close> as the series minus its shift by one.
  \<^item> \<open>TS_Extrema\<close>: \<open>maximum\<close>, \<open>minimum\<close> as the shift/compare masks
    \<open>max_mask\<close>, \<open>min_mask\<close> and boolean indexing \<open>bool_index\<close>, and the
    sliding-window reference \<open>local_maxima\<close>.
  \<^item> \<open>TS_Autocorr\<close>: \<open>autocorr\<close>: the lag loop, \<open>series_autocorr\<close>
    (\<open>Series.autocorr\<close> = correlation with the shifted series), \<open>nancorr\<close> (pairwise
    NaN filter) and \<open>corrcoef\<close> (\<open>np.corrcoef\<close> with its clip), compared with the
    textbook \<open>pearson\<close>.
  \<^item> \<open>TS_Frame\<close>: the record \<open>frame\<close> (column names, rows), \<open>save\<close> and
    \<open>py_next\<close>, \<open>join_outer\<close> (\<open>DataFrame.join(how='outer')\<close>) as the merge
    \<open>join_rows\<close>, and the abstraction \<open>frame_cell\<close> from a table to a map from
    (label, column) to a value.
  \<^item> \<open>TS_Results\<close>: \<open>stat_methods\<close> (the loop's list of names and bound methods,
    default arguments applied), the loop \<open>join_columns\<close>, \<open>get_results_body\<close>,
    the decorator \<open>function_logger\<close> as a printed-lines log \<open>log_line list\<close>
    threaded through the call, and \<open>get_results\<close>.
  \<^item> \<open>TS_Tests\<close>: \<open>tests_module.py\<close>. \<open>set_up\<close> (\<open>setUp\<close>), the pandas
    comparisons \<open>series_equals\<close> (\<open>Series.equals\<close>) and \<open>assert_series_close\<close>
    (\<open>assert_series_equal\<close> with \<open>check_exact=False\<close>: \<open>isclose\<close>, i.e.
    \<open>math.isclose\<close> at \<open>rtol = 1e-5\<close>, \<open>atol = 1e-8\<close>), and each test method
    \<open>test_moving_average\<close> .. \<open>test_minimum\<close> as the truth value of its
    assertions.
  \<^item> \<open>Lab1_Params\<close>: the parameter reading of \<open>lab1.py\<close>. The file system
    is a map \<open>file_system\<close> from paths to contents; \<open>read_properties\<close> opens
    the path (\<open>FileNotFoundError\<close> when absent), splits it with \<open>readlines\<close> and
    runs the loop \<open>read_properties_loop\<close> (\<open>split_on\<close>, \<open>remove_spaces\<close>,
    \<open>py_index\<close>); \<open>config_properties\<close> (\<open>dict_get\<close> over \<open>param_names\<close>),
    \<open>params_properties\<close>, and the record \<open>params\<close> for the six-tuple.
  \<^item> \<open>Lab1_Tabulate\<close>: \<open>function_init\<close>, \<open>calculate_and_write\<close>
    (\<open>py_div\<close>, \<open>py_int\<close>, \<open>linspace\<close>, then \<open>write_results\<close>, which stores
    \<open>str(y) + '\n'\<close> per value in \<open>results.txt\<close>), \<open>run_with_config\<close>,
    \<open>run_with_params\<close> and the entry point \<open>lab1_main\<close>, all returning the
    new file system or the exception. The point count \<open>int((nk - n0) / h)\<close> is
    computed in floats: \<open>py_sub\<close> and \<open>py_div\<close> round the exact real result
    with the parameter \<open>fl\<close> (\<open>None\<close> for an overflow to an infinity), and
    \<open>py_int\<close> raises \<open>OverflowError\<close> on an infinity. Python's \<open>float(s)\<close> and \<open>str(y)\<close> are
    parameters \<open>to_float\<close>, \<open>to_str\<close> of these definitions, so the properties
    hold for any float syntax and formatting; exceptions propagate through
    \<open>sbind\<close>.
  \<^item> this theory: the properties of the whole \<open>get_results\<close> call.

  \<^emph>\<open>What is proved.\<close> For each statistic, its full functional behaviour on every
  branch (the values at every position, NaN placement, the error of a negative
  window, the boundary and plateau behaviour of the extrema); for the
  autocorrelation, that numpy's normalised and clipped computation is the textbook
  Pearson coefficient of the overlapping slices (so the clip never acts, by
  Cauchy-Schwarz), that the trailing lags are NaN, and the lag-range behaviour with
  NaN input; for the table, that \<open>next(save(..))\<close> never raises, that the outer
  join keeps tables well formed, that its labels are the sorted union of both
  sides' labels (nothing dropped or duplicated) and that it refines the union of
  the two cell maps; and for the whole call, that it never raises, returns the six
  fixed columns over the labels \<open>0 .. n-1\<close>, logs exactly the call and the result,
  and that every cell is the value of its statistic. The vectorised \<open>maximum\<close>
  equals a sliding-window scan. Every unit test of \<open>tests_module.py\<close> is
  checked to pass in the model (lemmas of \<open>TS_Tests\<close>). For \<open>lab1.py\<close>: that a
  configuration file maps each key to the value of its last line, that a line
  without a colon (a blank line too) raises \<open>IndexError\<close>, which key's absence
  raises \<open>KeyError\<close>, at which argument \<open>params_properties\<close> fails, that the
  entry point tabulates with the arguments in order and raises
  \<open>FileNotFoundError\<close> without a configuration file, that
  \<open>calculate_and_write\<close> writes \<open>f\<close> on a grid of \<open>int\<close> of the float quotient
  many points with both ends included (so its spacing is not \<open>h\<close>), the exact
  three error cases of \<open>calculate_and_write\<close> (division by zero, overflow to an
  infinity, a negative count), and that the results file reads back to the
  written values.

  \<^emph>\<open>Bounds and termination.\<close> Every loop of the program runs over a finite list
  and is modelled by structural recursion or \<open>map\<close>; no fuel is needed.

  \<^emph>\<open>Not modelled.\<close> Printing is modelled as log entries, not as formatted text.
  pandas' alignment inside \<open>Series.corr\<close> is the identity here (both operands
  share an index) and is not modelled; the outer join is modelled for unique
  increasing indexes, the only ones the program builds (proved: every column it
  joins satisfies \<open>index_ok\<close>). In \<open>lab1.py\<close>, files are contents without
  encodings, permissions or I/O errors other than a missing file; universal
  newline translation is assumed done; \<open>float\<close>'s syntax, \<open>str\<close>'s
  formatting and the rounding of the point count's subtraction and division are
  parameters, so every property holds whatever they are; the grid points of
  \<open>np.linspace\<close> and the values of \<open>exp\<close> are computed over the reals, so the
  written values agree with the program's up to floating-point error, while
  their number is exact. Parameters that are infinite or NaN are not modelled. The \<open>unittest\<close> runner and the warning filter of
  \<open>setUp\<close> have no effect on the values and are not modelled. \<open>setup.py\<close>
  (packaging metadata) has no behaviour and is not modelled.
\<close>

text \<open>C1: for every input sequence (empty and one-element ones included),
  \<open>get_results\<close> on a freshly constructed analyser raises nothing, logs the call
  and then its result, and returns a well-formed table whose columns are, in this
  order, \<open>Stock Cost\<close>, \<open>Moving average\<close>, \<open>Differential\<close>,
  \<open>Autocorrelation\<close>, \<open>Max\<close>, \<open>Min\<close>, and whose row labels are exactly
  \<open>0 .. n-1\<close>: the union of the six columns' labels, since every statistic's
  labels lie inside the raw series' labels.\<close>

theorem get_results_table:
  "\<exists>df. get_results (stock_analysis_init xs) out =
       (Inr df, out @ [LogCall ''get_results'' (stock_analysis_init xs), LogResult df]) \<and>
     columns df = [''Stock Cost'', ''Moving average'', ''Differential'', ''Autocorrelation'', ''Max'', ''Min''] \<and>
     frame_keys df = map int [0..<length xs] \<and> frame_wf df"
proof -
  obtain df where "get_results_body (stock_analysis_init xs) = Inr df" "frame_wf df"
    "frame_keys df = map int [0..<length xs]" "columns df = ''Stock Cost'' # map fst stat_methods"
    using get_results_body_correct [of xs] by blast
  then show ?thesis by (simp add: get_results_eq stat_methods_def)
qed

text \<open>C2: every cell of the table returned by \<open>get_results\<close> is the value that
  the corresponding statistic method, called with its default arguments, has at
  that row label, NaN where the statistic has no entry for the label.\<close>

theorem get_results_cells:
  assumes "fst (get_results (stock_analysis_init xs) out) = Inr df"
  shows "frame_cell df k ''Stock Cost'' = series_lookup (data (stock_analysis_init xs)) k \<and>
    (\<exists>ma. moving_average (stock_analysis_init xs) 3 = Inr ma \<and>
          frame_cell df k ''Moving average'' = series_lookup ma k) \<and>
    frame_cell df k ''Differential'' = series_lookup (diff (stock_analysis_init xs)) k \<and>
    frame_cell df k ''Autocorrelation'' = series_lookup (autocorr (stock_analysis_init xs) 1) k \<and>
    frame_cell df k ''Max'' = series_lookup (maximum (stock_analysis_init xs)) k \<and>
    frame_cell df k ''Min'' = series_lookup (minimum (stock_analysis_init xs)) k"
proof -
  obtain df' where body: "get_results_body (stock_analysis_init xs) = Inr df'"
    and cost: "\<forall>k. frame_cell df' k ''Stock Cost'' = series_lookup (series_of_list xs) k"
    and cells: "list_all (\<lambda>(name, f). \<forall>r k. f (stock_analysis_init xs) = Inr r \<longrightarrow>
        frame_cell df' k name = series_lookup r k) stat_methods"
    using get_results_body_correct [of xs] by blast
  have "df' = df" using assms body by (simp add: get_results_eq)
  moreover have "\<exists>ma. moving_average (stock_analysis_init xs) 3 = Inr ma"
    by (simp add: moving_average_Inr)
  ultimately show ?thesis
    using cost cells by (auto simp: stat_methods_def)
qed

theorem get_results_cells_witness:
  "\<exists>df. fst (get_results (stock_analysis_init test_data) []) = Inr df \<and>
     frame_cell df 4 ''Max'' = Some 7 \<and> frame_cell df 0 ''Autocorrelation'' = None \<and>
     frame_cell df 4 ''Differential'' = Some 3"
proof -
  obtain df where df: "get_results_body (stock_analysis_init test_data) = Inr df"
    using get_results_body_correct [of test_data] by blast
  then have r: "fst (get_results (stock_analysis_init test_data) []) = Inr df"
    by (simp add: get_results_eq)
  note c = get_results_cells [OF r]
  have "frame_cell df 4 ''Max'' = Some 7"
    using c [of 4] by (simp add: series_lookup_def maximum_eq test_data_def series_of_list_def
      is_local_max_def upt_rec)
  moreover have "frame_cell df 0 ''Autocorrelation'' = None"
    using c [of 0] by (simp add: series_lookup_def autocorr_def Let_def test_data_def upto.simps)
  moreover have "frame_cell df 4 ''Differential'' = Some 3"
    using c [of 4] by (simp add: series_lookup_def diff_def diff_values_def shift_def test_data_def
      series_of_list_def series_values_def series_index_def with_values_def)
  ultimately show ?thesis using r by blast
qed
end
